theory Spec2Isabelle
  imports Complex_Main "HOL-Library.Sublist"
begin

section \<open>Time, as dayjs computes with it\<close>

text \<open>
  A point in time is the number of milliseconds since the epoch (what \<^verbatim>\<open>valueOf()\<close>
  gives for a Date or a dayjs object). The UTC offset a dayjs object carries changes how
  it prints, not the instant, so \<^verbatim>\<open>utc()\<close> is the identity here, and so is
  \<^verbatim>\<open>utcOffset(n)\<close> for a number \<open>n\<close>; called with undefined, \<^verbatim>\<open>utcOffset\<close> is a getter
  (see \<open>utcOffset\<close> below).
\<close>

type_synonym time = int

definition MILLISECONDS_A_HOUR :: int where
  "MILLISECONDS_A_HOUR = 3600000"

definition MILLISECONDS_A_DAY :: int where
  "MILLISECONDS_A_DAY = 86400000"

text \<open>
  \<^verbatim>\<open>a.diff(b, "hours")\<close> is \<^verbatim>\<open>(a - b) / 3600000\<close> cut to an integer by dayjs'
  \<^verbatim>\<open>absFloor\<close>: \<^verbatim>\<open>n < 0 ? Math.ceil(n) || 0 : Math.floor(n)\<close>, that is, truncation
  towards zero.
\<close>

definition absFloor :: "int \<Rightarrow> int \<Rightarrow> int" where
  "absFloor n d = (if n < 0 then - ((- n) div d) else n div d)"

definition diff_hours :: "time \<Rightarrow> time \<Rightarrow> int" where
  "diff_hours this that = absFloor (this - that) MILLISECONDS_A_HOUR"

text \<open>\<^verbatim>\<open>t.endOf("day")\<close> in UTC: the last millisecond of the day of \<open>t\<close>.\<close>

definition endOf_day :: "time \<Rightarrow> time" where
  "endOf_day t = (t div MILLISECONDS_A_DAY) * MILLISECONDS_A_DAY + (MILLISECONDS_A_DAY - 1)"


section \<open>Data model\<close>

text \<open>
  A JavaScript number that is a coordinate: \<open>NaN\<close> or a value. Values are rationals,
  an idealisation of the doubles of the source; nothing below depends on rounding at
  ties or on precision.
\<close>

datatype number = NaN | Num rat

fun isNaN :: "number \<Rightarrow> bool" where
  "isNaN NaN = True"
| "isNaN (Num _) = False"

text \<open>\<^verbatim>\<open>parseFloat(c.toFixed(4))\<close>: four decimals, a tie rounded away from zero.\<close>

fun toFixed4 :: "number \<Rightarrow> number" where
  "toFixed4 NaN = NaN"
| "toFixed4 (Num x) =
     (if x < 0 then Num (- (of_int \<lfloor>(- x) * 10000 + 1 / 2\<rfloor> / 10000))
      else Num (of_int \<lfloor>x * 10000 + 1 / 2\<rfloor> / 10000))"

text \<open>
  The response of the Storm Glass API, as far as \<^verbatim>\<open>toWeatherSummary\<close> reads it: an
  object with an array under \<^verbatim>\<open>hours\<close> or \<^verbatim>\<open>data\<close> (the fields \<open>res_hours\<close> and
  \<open>res_data\<close>), each element with a \<^verbatim>\<open>time\<close> string and measurements that give one
  value per source.
\<close>

record SGSources =
  sg :: "rat option"
  dwd :: "rat option"
  noaa :: "rat option"

record SGHour =
  time :: "string option"
  airTemperature :: "SGSources option"
  humidity :: "SGSources option"
  pressure :: "SGSources option"
  cloudCover :: "SGSources option"
  windDirection :: "SGSources option"
  windSpeed :: "SGSources option"
  precipitation :: "SGSources option"
  snowDepth :: "SGSources option"
  visibility :: "SGSources option"

record SGResponse =
  res_hours :: "SGHour list option"
  res_data :: "SGHour list option"

text \<open>
  The canonical summary. The two entries of \<^verbatim>\<open>extraData\<close> that the Storm Glass module
  writes, \<^verbatim>\<open>timeOfDay\<close> and \<^verbatim>\<open>mmPrecipitation\<close>, are fields of the record here. In
  \<open>ActivityWeather\<close> the field \<^verbatim>\<open>end\<close> of the source is \<open>endw\<close>.
\<close>

record WeatherSummary =
  provider :: string
  summary :: "string option"
  icon :: "string option"
  temperature :: "rat option"
  feelsLike :: "rat option"
  humidity :: "rat option"
  pressure :: "rat option"
  windSpeed :: "rat option"
  windDirection :: "rat option"
  precipitation :: "string option"
  cloudCover :: "rat option"
  visibility :: "rat option"
  timeOfDay :: "string"
  mmPrecipitation :: "rat option"

record ActivityWeather =
  start :: "WeatherSummary option"
  endw :: "WeatherSummary option"
  mid :: "WeatherSummary option"

record WeatherApiStats =
  requestCount :: int
  errorCount :: int
  lastRequest :: "time option"

text \<open>
  A provider module: its static coverage window and its mutable runtime state.
  \<open>disabledTillDate\<close> is absent on a fresh module (\<open>None\<close> for undefined and null).
\<close>

record WeatherProvider =
  name :: string
  hoursPast :: int
  hoursFuture :: int
  stats :: WeatherApiStats
  disabledTillDate :: "time option"

text \<open>The fields of the user and of the preferences that the lookups read.\<close>

record UserPreferences =
  weatherProvider :: "string option"
  weatherUnit :: "string option"

record UserData =
  isPro :: bool
  preferences :: "UserPreferences option"

text \<open>
  The fields of a Strava activity that the weather lookup reads. \<open>dateEnd\<close> is set by
  \<^verbatim>\<open>toStravaActivity\<close> only when the elapsed time is non-zero; \<open>locationMid\<close> is optional.
  \<open>utcStartOffset\<close> is \<^verbatim>\<open>data.utc_offset\<close> of Strava (divided by 60 when it is not
  zero): a number, or undefined (\<open>None\<close>) when Strava sends none.
\<close>

record StravaActivity =
  hasLocation :: bool
  dateStart :: time
  dateEnd :: "time option"
  utcStartOffset :: "rat option"
  totalTime :: int
  locationStart :: "number list option"
  locationEnd :: "number list option"
  locationMid :: "number list option"

text \<open>
  What a \<^verbatim>\<open>throw\<close> carries, as far as the code inspects it: an HTTP client error with
  \<^verbatim>\<open>ex.response.status\<close>, an \<^verbatim>\<open>Error\<close> with a message and no response, or the
  \<^verbatim>\<open>TypeError\<close> the runtime raises on reading a property of undefined.
\<close>

datatype exn = HttpError nat | Error string | TypeError string

datatype 'a outcome = Return 'a | Throw exn

fun response_status :: "exn \<Rightarrow> nat option" where
  "response_status (HttpError n) = Some n"
| "response_status (Error _) = None"
| "response_status (TypeError _) = None"

text \<open>JavaScript truthiness of an optional string: undefined, null and "" are falsy.\<close>

fun truthy :: "string option \<Rightarrow> bool" where
  "truthy None = False"
| "truthy (Some s) = (s \<noteq> [])"


section \<open>The state of the process\<close>

text \<open>
  The key of a cache entry is the string
  \<^verbatim>\<open>`${coordinates.join("-")}-${dDate.valueOf() / 1000}`\<close>; the pair of the rounded
  coordinates and the timestamp stands for it.

  An entry of the trace \<open>calls\<close> records one invocation of a provider's
  \<^verbatim>\<open>getWeather\<close>: the provider's position in \<open>providers\<close>, the coordinates and the date
  it was called with. The trace is not part of the program; it makes "which adapter was
  called, in which order, with what" a value that theorems can speak about.
\<close>

type_synonym cacheId = "number list \<times> time"

type_synonym call = "nat \<times> number list \<times> time"

record world =
  clock :: time
  providers :: "WeatherProvider list"
  maxHoursPast :: int
  cache :: "cacheId \<Rightarrow> WeatherSummary option"
  randoms :: "nat list"
  calls :: "call list"

text \<open>
  The provider modules are shared mutable objects; \<open>providers\<close> holds them, and the
  aggregator's local lists (\<^verbatim>\<open>availableProviders\<close>, \<^verbatim>\<open>currentProviders\<close>) hold
  references to the same objects: positions in \<open>providers\<close>.
\<close>

definition updateProvider :: "nat \<Rightarrow> (WeatherProvider \<Rightarrow> WeatherProvider) \<Rightarrow> world \<Rightarrow> world" where
  "updateProvider i f w = w\<lparr>providers := (providers w)[i := f (providers w ! i)]\<rparr>"

text \<open>
  The settings file is not part of the sources: the default provider pool and, for each
  provider's name, whether \<^verbatim>\<open>settings.weather\<close> has an entry for it (\<open>configured\<close>) and
  the entry's \<^verbatim>\<open>disabled\<close>, \<^verbatim>\<open>secret\<close> and \<^verbatim>\<open>rateLimit.perDay\<close> are parameters. So
  is the offset of the server's time zone from UTC, in minutes, at a given time
  (\<open>localUtcOffset\<close>: what dayjs' \<^verbatim>\<open>utcOffset()\<close> gives for a date in local mode). So is
  every provider module's \<^verbatim>\<open>getWeather\<close> (one module, Storm Glass, is modelled from its
  source below): it gets the position of its own module, the coordinates, the date and
  the preferences, it returns a summary, returns nothing (undefined) or throws, and it
  may change the state.
\<close>

type_synonym adapter =
  "nat \<Rightarrow> number list \<Rightarrow> time \<Rightarrow> UserPreferences option \<Rightarrow> world \<Rightarrow> WeatherSummary option outcome \<times> world"

record env =
  defaultProviders :: "string list"
  configured :: "string \<Rightarrow> bool"
  disabled :: "string \<Rightarrow> bool"
  secret :: "string \<Rightarrow> string option"
  perDay :: "string \<Rightarrow> int"
  localUtcOffset :: "time \<Rightarrow> int"
  getWeather :: adapter

text \<open>
  Modelled from the spec: the provider modules other than Storm Glass are not part of the
  sources. What the lookup may rely on when it calls one (the contract of the adapter,
  sections 3, 4.1 and 6 of the specification, and what the Storm Glass module does): a
  call keeps the list of modules, changes no module but its own and keeps its own name;
  a call that throws has counted one error on its own module; a summary that is
  returned carries the name of the module.
\<close>

definition adapterContract :: "env \<Rightarrow> bool" where
  "adapterContract E =
     (\<forall>i coordinates dDate prefs w. i < length (providers w) \<longrightarrow>
        (case getWeather E i coordinates dDate prefs w of
           (r, w') \<Rightarrow>
             length (providers w') = length (providers w) \<and>
             (\<forall>j. j \<noteq> i \<longrightarrow> providers w' ! j = providers w ! j) \<and>
             name (providers w' ! i) = name (providers w ! i) \<and>
             (case r of
                Throw ex \<Rightarrow>
                  errorCount (stats (providers w' ! i)) = errorCount (stats (providers w ! i)) + 1
              | Return None \<Rightarrow> True
              | Return (Some s) \<Rightarrow> provider s = name (providers w ! i))))"


section \<open>Registration of the providers: init\<close>

text \<open>
  The body of the loop of \<^verbatim>\<open>init\<close>, lines 55 to 78, for one module whose settings
  exist, and the loop over the list \<^verbatim>\<open>all\<close> of the modules. For a module with no entry
  in the settings, reading \<^verbatim>\<open>pSettings.disabled\<close> throws: the catch block of \<^verbatim>\<open>init\<close>
  logs the error, and the loop has ended there, so that module and the modules after it
  are not registered. The rate limiter that \<^verbatim>\<open>apiRateLimiter\<close> builds is part of the
  adapter here.
\<close>

definition register :: "env \<Rightarrow> WeatherProvider \<Rightarrow> world \<Rightarrow> world" where
  "register E p w =
     (if disabled E (name p) then w
      else if \<not> truthy (secret E (name p)) then w
      else w\<lparr>providers :=
               providers w @ [p\<lparr>stats := \<lparr>requestCount = 0, errorCount = 0, lastRequest = None\<rparr>\<rparr>],
             maxHoursPast := (if hoursPast p > maxHoursPast w then hoursPast p else maxHoursPast w)\<rparr>)"

fun init :: "env \<Rightarrow> WeatherProvider list \<Rightarrow> world \<Rightarrow> world" where
  "init E [] w = w"
| "init E (p # ps) w = (if configured E (name p) then init E ps (register E p w) else w)"


section \<open>lodash: sample and sampleSize\<close>

text \<open>
  \<^verbatim>\<open>Math.random\<close> is the stream \<open>randoms\<close> of the state: each draw takes its head.
  \<^verbatim>\<open>baseRandom(lower, upper)\<close> is a number in \<open>lower..upper\<close>.
\<close>

definition nextRandom :: "world \<Rightarrow> nat \<times> world" where
  "nextRandom w = (case randoms w of [] \<Rightarrow> (0, w) | r # rs \<Rightarrow> (r, w\<lparr>randoms := rs\<rparr>))"

definition baseRandom :: "nat \<Rightarrow> nat \<Rightarrow> world \<Rightarrow> nat \<times> world" where
  "baseRandom lower upper w =
     (case nextRandom w of (r, w') \<Rightarrow> (lower + r mod (upper - lower + 1), w'))"

text \<open>\<^verbatim>\<open>_.sample(array)\<close>: undefined for an empty array, without a draw.\<close>

definition sample :: "'a list \<Rightarrow> world \<Rightarrow> 'a option \<times> world" where
  "sample xs w =
     (if xs = [] then (None, w)
      else case baseRandom 0 (length xs - 1) w of (r, w') \<Rightarrow> (Some (xs ! r), w'))"

text \<open>
  \<^verbatim>\<open>_.sampleSize(array, n)\<close> is \<^verbatim>\<open>shuffleSelf(copyArray(array), clamp(n, 0, length))\<close>:
  for each index below the size, swap the element there with one drawn from the rest,
  then cut the array to the size.
\<close>

fun shuffleSelf :: "nat \<Rightarrow> nat \<Rightarrow> 'a list \<Rightarrow> world \<Rightarrow> 'a list \<times> world" where
  "shuffleSelf index 0 xs w = (xs, w)"
| "shuffleSelf index (Suc n) xs w =
     (case baseRandom index (length xs - 1) w of
        (rand, w') \<Rightarrow> shuffleSelf (Suc index) n (xs[rand := xs ! index, index := xs ! rand]) w')"

definition sampleSize :: "'a list \<Rightarrow> nat \<Rightarrow> world \<Rightarrow> 'a list \<times> world" where
  "sampleSize xs n w =
     (case shuffleSelf 0 (min n (length xs)) xs w of
        (ys, w') \<Rightarrow> (take (min n (length xs)) ys, w'))"


section \<open>The aggregator: getLocationWeather\<close>

subsection \<open>Input check and preference resolution\<close>

text \<open>
  \<^verbatim>\<open>!dDate || !coordinates || coordinates.length != 2 || isNaN(coordinates[0]) || isNaN(coordinates[1])\<close>
\<close>

definition invalidInput :: "number list option \<Rightarrow> time option \<Rightarrow> bool" where
  "invalidInput coordinates dDate =
     (case dDate of
        None \<Rightarrow> True
      | Some _ \<Rightarrow>
          (case coordinates of
             None \<Rightarrow> True
           | Some cs \<Rightarrow> if length cs = 2 then isNaN (cs ! 0) \<or> isNaN (cs ! 1) else True))"

text \<open>
  Lines 179 to 183: with no provider given, a member of the default pool is drawn, the
  user's stored preference is taken when there is one and the drawn one otherwise, and
  \<^verbatim>\<open>isDefaultProvider\<close> is set. The result is the provider's name, the flag and the
  state after the draw.
\<close>

definition resolveProvider ::
  "env \<Rightarrow> world \<Rightarrow> string option \<Rightarrow> UserPreferences option \<Rightarrow> string option \<times> bool \<times> world" where
  "resolveProvider E w providerArg prefs =
     (if truthy providerArg then (providerArg, False, w)
      else case sample (defaultProviders E) w of
        (defaultProvider, w') \<Rightarrow>
          ((case prefs of
              None \<Rightarrow> defaultProvider
            | Some p \<Rightarrow> if truthy (weatherProvider p) then weatherProvider p else defaultProvider),
           True, w'))"

text \<open>
  Line 188: \<^verbatim>\<open>cached && (isDefaultProvider || cached.provider == provider)\<close>.
\<close>

definition cacheUsable :: "WeatherSummary option \<Rightarrow> bool \<Rightarrow> string option \<Rightarrow> bool" where
  "cacheUsable cached isDefaultProvider prov =
     (case cached of
        None \<Rightarrow> False
      | Some c \<Rightarrow> isDefaultProvider \<or> Some (provider c) = prov)"

subsection \<open>The eligibility filter\<close>

text \<open>
  The callback of the filter of lines 194 to 199. \<open>hours\<close> is
  \<^verbatim>\<open>utcNow.diff(utcDate, "hours")\<close>: positive for a date in the past. A comparison with
  \<^verbatim>\<open>utcNow.diff(null, "hours")\<close>, which is NaN, is false.
\<close>

definition isAvailable :: "env \<Rightarrow> int \<Rightarrow> time \<Rightarrow> WeatherProvider \<Rightarrow> bool" where
  "isAvailable E hours utcNow p =
     (if hoursPast p < hours then False
      else if hoursFuture p < hours * (- 1) then False
      else if (case disabledTillDate p of None \<Rightarrow> False | Some d \<Rightarrow> utcNow < d) then False
      else requestCount (stats p) < perDay E (name p) \<or>
           (case lastRequest (stats p) of
              None \<Rightarrow> False
            | Some t \<Rightarrow> diff_hours utcNow t > 16))"

definition availableProviders :: "env \<Rightarrow> world \<Rightarrow> int \<Rightarrow> time \<Rightarrow> nat list" where
  "availableProviders E w hours utcNow =
     filter (\<lambda>i. isAvailable E hours utcNow (providers w ! i)) [0..<length (providers w)]"

subsection \<open>Candidate selection\<close>

text \<open>
  Lines 212 to 218. \<^verbatim>\<open>_.remove(availableProviders, {name: provider})\<close> takes the
  providers of that name out of the list and returns them; then either one of the
  remaining ones is sampled and pushed (undefined when none remains), or two are sampled.
  An entry of the candidate list is a provider or undefined.
\<close>

definition selectCandidates :: "world \<Rightarrow> nat list \<Rightarrow> string option \<Rightarrow> nat option list \<times> world" where
  "selectCandidates w available prov =
     (let removed = filter (\<lambda>i. Some (name (providers w ! i)) = prov) available;
          remaining = filter (\<lambda>i. Some (name (providers w ! i)) \<noteq> prov) available
      in if length removed > 0
         then (case sample remaining w of (other, w') \<Rightarrow> (map Some removed @ [other], w'))
         else (case sampleSize remaining 2 w of (picked, w') \<Rightarrow> (map Some picked, w')))"

subsection \<open>The attempts\<close>

text \<open>One call of a provider's \<^verbatim>\<open>getWeather\<close>, recorded in the trace.\<close>

definition invoke ::
  "env \<Rightarrow> nat \<Rightarrow> number list \<Rightarrow> time \<Rightarrow> UserPreferences option \<Rightarrow> world \<Rightarrow> WeatherSummary option outcome \<times> world" where
  "invoke E i coordinates dDate prefs w =
     (case getWeather E i coordinates dDate prefs w of
        (r, w') \<Rightarrow> (r, w'\<lparr>calls := calls w @ [(i, coordinates, dDate)]\<rparr>))"

text \<open>
  Lines 255 to 257, after the try statement: the result is written to the cache, then
  \<^verbatim>\<open>result.provider\<close> is read for the log line, which throws when \<open>result\<close> is
  undefined, and the result is returned.
\<close>

definition storeAndReturn :: "cacheId \<Rightarrow> WeatherSummary option \<Rightarrow> world \<Rightarrow> WeatherSummary option outcome \<times> world" where
  "storeAndReturn cacheId result w =
     (case result of
        None \<Rightarrow> (Throw (TypeError ''provider''), w\<lparr>cache := (cache w)(cacheId := None)\<rparr>)
      | Some r \<Rightarrow> (Return (Some r), w\<lparr>cache := (cache w)(cacheId := Some r)\<rparr>))"

text \<open>
  The catch block, lines 228 to 253: \<open>first\<close> is the provider whose attempt failed with
  \<open>ex\<close>. Reading \<^verbatim>\<open>providerModule.name\<close> of an undefined second candidate throws out
  of the catch block.
\<close>

definition onFailure ::
  "env \<Rightarrow> time \<Rightarrow> nat option list \<Rightarrow> nat \<Rightarrow> number list \<Rightarrow> time \<Rightarrow> UserPreferences option \<Rightarrow> cacheId \<Rightarrow>
   exn \<Rightarrow> world \<Rightarrow> WeatherSummary option outcome \<times> world" where
  "onFailure E utcNow currentProviders first coordinates dDate prefs cacheId ex w =
     (let w1 = (if response_status ex = Some 402
                then updateProvider first
                       (\<lambda>p. p\<lparr>disabledTillDate := Some (endOf_day utcNow + MILLISECONDS_A_HOUR)\<rparr>) w
                else w)
      in if length currentProviders > 1 then
           (case currentProviders ! 1 of
              None \<Rightarrow> (Throw (TypeError ''name''), w1)
            | Some second \<Rightarrow>
                (case invoke E second coordinates dDate prefs w1 of
                   (Throw retryEx, w2) \<Rightarrow> (Return None, w2)
                 | (Return result, w2) \<Rightarrow> storeAndReturn cacheId result w2))
         else storeAndReturn cacheId None w1)"

text \<open>
  Lines 220 to 257: the first candidate is called; a summary clears its
  \<open>disabledTillDate\<close>; no summary is the error "No weather summary returned"; an error
  goes to the catch block.
\<close>

definition fetchFromCandidates ::
  "env \<Rightarrow> time \<Rightarrow> nat option list \<Rightarrow> number list \<Rightarrow> time \<Rightarrow> UserPreferences option \<Rightarrow> cacheId \<Rightarrow>
   world \<Rightarrow> WeatherSummary option outcome \<times> world" where
  "fetchFromCandidates E utcNow currentProviders coordinates dDate prefs cacheId w =
     (case (case currentProviders of [] \<Rightarrow> None | c # _ \<Rightarrow> c) of
        None \<Rightarrow> (Throw (TypeError ''name''), w)
      | Some first \<Rightarrow>
          (case invoke E first coordinates dDate prefs w of
             (Return (Some result), w1) \<Rightarrow>
               storeAndReturn cacheId (Some result)
                 (updateProvider first (\<lambda>p. p\<lparr>disabledTillDate := None\<rparr>) w1)
           | (Return None, w1) \<Rightarrow>
               onFailure E utcNow currentProviders first coordinates dDate prefs cacheId
                 (Error ''No weather summary returned'') w1
           | (Throw ex, w1) \<Rightarrow>
               onFailure E utcNow currentProviders first coordinates dDate prefs cacheId ex w1))"

subsection \<open>The whole lookup\<close>

definition getLocationWeather ::
  "env \<Rightarrow> world \<Rightarrow> UserData \<Rightarrow> number list option \<Rightarrow> time option \<Rightarrow> string option \<Rightarrow>
   WeatherSummary option outcome \<times> world" where
  "getLocationWeather E w user coordinates dDate providerArg =
     (if invalidInput coordinates dDate then (Return None, w)
      else
        let rounded = map toFixed4 (the coordinates);
            d = the dDate;
            utcNow = clock w;
            hours = diff_hours utcNow d
        in case resolveProvider E w providerArg (preferences user) of
          (prov, isDefaultProvider, w1) \<Rightarrow>
            if cacheUsable (cache w1 (rounded, d)) isDefaultProvider prov
            then (Return (cache w1 (rounded, d)), w1)
            else if length (availableProviders E w1 hours utcNow) = 0 then (Return None, w1)
            else case selectCandidates w1 (availableProviders E w1 hours utcNow) prov of
              (currentProviders, w2) \<Rightarrow>
                fetchFromCandidates E utcNow currentProviders rounded d (preferences user)
                  (rounded, d) w2)"


section \<open>The aggregator: getActivityWeather\<close>

text \<open>
  \<^verbatim>\<open>dayjs(date).utcOffset(activity.utcStartOffset)\<close>, lines 110, 111 and 126. With a
  number, \<^verbatim>\<open>utcOffset\<close> sets the offset and returns a dayjs object for the same instant.
  With undefined it is the getter: it returns a number, the offset of the date, which
  for a date made by \<^verbatim>\<open>dayjs(date)\<close> is the offset of the server's time zone.
\<close>

datatype dateArg = Dayjs time | Number int

definition utcOffset :: "env \<Rightarrow> time \<Rightarrow> rat option \<Rightarrow> dateArg" where
  "utcOffset E t offset =
     (case offset of
        None \<Rightarrow> Number (localUtcOffset E t)
      | Some n \<Rightarrow> Dayjs t)"

text \<open>
  The call \<^verbatim>\<open>this.getLocationWeather(user, coordinates, date)\<close> with what \<^verbatim>\<open>utcOffset\<close>
  returned. A dayjs object is the lookup above, with no provider given. The number 0 is
  falsy: line 157 takes it for a missing date, and the lookup returns null. Any other
  number is truthy and has no \<^verbatim>\<open>format\<close>: \<^verbatim>\<open>dDate.format("lll")\<close> throws on line 159
  when the coordinates are refused and on line 172 when they are not, in both cases
  before anything is drawn, read from the cache or called.
\<close>

definition callLocationWeather ::
  "env \<Rightarrow> world \<Rightarrow> UserData \<Rightarrow> number list option \<Rightarrow> dateArg \<Rightarrow>
   WeatherSummary option outcome \<times> world" where
  "callLocationWeather E w user coordinates dDate =
     (case dDate of
        Dayjs d \<Rightarrow> getLocationWeather E w user coordinates (Some d) None
      | Number n \<Rightarrow> if n = 0 then (Return None, w) else (Throw (TypeError ''format''), w))"

text \<open>
  Lines 114 to 120: both lookups stand in one try block, so an exception of the first
  skips the second. Line 111 computes \<^verbatim>\<open>dateEnd\<close> from \<^verbatim>\<open>activity.dateStart\<close>; the
  dates come in as parameters here and the caller below passes what the source passes.
\<close>

definition fetchStartEnd ::
  "env \<Rightarrow> world \<Rightarrow> UserData \<Rightarrow> StravaActivity \<Rightarrow> dateArg \<Rightarrow> dateArg \<Rightarrow> ActivityWeather \<times> world" where
  "fetchStartEnd E w user activity dStart dEnd =
     (case callLocationWeather E w user (locationStart activity) dStart of
        (Throw innerEx, w1) \<Rightarrow> (\<lparr>start = None, endw = None, mid = None\<rparr>, w1)
      | (Return s, w1) \<Rightarrow>
          (case callLocationWeather E w1 user (locationEnd activity) dEnd of
             (Throw innerEx, w2) \<Rightarrow> (\<lparr>start = s, endw = None, mid = None\<rparr>, w2)
           | (Return e, w2) \<Rightarrow> (\<lparr>start = s, endw = e, mid = None\<rparr>, w2)))"

text \<open>
  Lines 123 to 131. \<^verbatim>\<open>add(totalTime / 2, "seconds")\<close> adds \<open>totalTime * 500\<close>
  milliseconds.
\<close>

definition fetchMid ::
  "env \<Rightarrow> world \<Rightarrow> UserData \<Rightarrow> StravaActivity \<Rightarrow> ActivityWeather \<Rightarrow> ActivityWeather \<times> world" where
  "fetchMid E w user activity weather =
     (if isPro user \<and> totalTime activity > 10800 then
        (case callLocationWeather E w user (locationMid activity)
                (utcOffset E (dateStart activity + totalTime activity * 500)
                   (utcStartOffset activity)) of
           (Throw innerEx, w1) \<Rightarrow> (weather, w1)
         | (Return m, w1) \<Rightarrow> (weather\<lparr>mid := m\<rparr>, w1))
      else (weather, w))"

text \<open>
  \<^verbatim>\<open>minDate.isAfter(activity.dateEnd)\<close>, with \<^verbatim>\<open>minDate\<close> the current time less
  \<open>maxHoursPast\<close> hours; dayjs reads an undefined date as the current time.
\<close>

definition tooLongAgo :: "world \<Rightarrow> StravaActivity \<Rightarrow> bool" where
  "tooLongAgo w activity =
     ((case dateEnd activity of None \<Rightarrow> clock w | Some e \<Rightarrow> e)
        < clock w - maxHoursPast w * MILLISECONDS_A_HOUR)"

text \<open>The body of the outer try block, lines 98 to 142.\<close>

definition getActivityWeather_try ::
  "env \<Rightarrow> world \<Rightarrow> UserData \<Rightarrow> StravaActivity \<Rightarrow> ActivityWeather option outcome \<times> world" where
  "getActivityWeather_try E w user activity =
     (if hasLocation activity then
        (if tooLongAgo w activity then (Return None, w)
         else
           case fetchStartEnd E w user activity
                  (utcOffset E (dateStart activity) (utcStartOffset activity))
                  (utcOffset E (dateStart activity) (utcStartOffset activity)) of
             (weather, w1) \<Rightarrow>
               (case fetchMid E w1 user activity weather of
                  (weather', w2) \<Rightarrow>
                    if start weather' = None \<and> endw weather' = None
                    then (Throw (Error ''Failed to get the activity weather''), w2)
                    else (Return (Some weather'), w2)))
      else (Return None, w))"

text \<open>The outer catch block, lines 143 to 146, returns null for every exception.\<close>

definition getActivityWeather ::
  "env \<Rightarrow> world \<Rightarrow> UserData \<Rightarrow> StravaActivity \<Rightarrow> ActivityWeather option outcome \<times> world" where
  "getActivityWeather E w user activity =
     (case getActivityWeather_try E w user activity of
        (Throw ex, w') \<Rightarrow> (Return None, w')
      | (Return r, w') \<Rightarrow> (Return r, w'))"


section \<open>The Storm Glass adapter\<close>

text \<open>
  What the module takes from files that are not part of the sources, as parameters:
  \<open>apiRequest\<close> is \<^verbatim>\<open>this.apiRequest.schedule(() => axiosRequest(...))\<close>, the rate
  limiter around the HTTP request, given the coordinates and the \<^verbatim>\<open>start\<close> and
  \<^verbatim>\<open>end\<close> parameters of the URL when they are sent; \<open>dayOfYear\<close> and \<open>formatHour\<close>
  are dayjs' \<^verbatim>\<open>dayOfYear()\<close> and \<^verbatim>\<open>format("YYYY-MM-DDTHH")\<close>; \<open>getSuntimes\<close> gives the
  \<^verbatim>\<open>timeOfDay\<close> of \<^verbatim>\<open>getSuntimes(coordinates, dDate)\<close>; \<open>processWeatherSummary\<close>
  finishes the summary.
\<close>

type_synonym sgRequest = "number list \<times> (int \<times> int) option"

record stormglassEnv =
  apiRequest :: "sgRequest \<Rightarrow> world \<Rightarrow> SGResponse option outcome \<times> world"
  dayOfYear :: "time \<Rightarrow> nat"
  formatHour :: "time \<Rightarrow> string"
  getSuntimes :: "number list \<Rightarrow> time \<Rightarrow> string"
  processWeatherSummary :: "WeatherSummary \<Rightarrow> time \<Rightarrow> UserPreferences \<Rightarrow> WeatherSummary"

text \<open>The module's own fields, with the statistics that \<^verbatim>\<open>init\<close> sets.\<close>

definition stormglass :: WeatherProvider where
  "stormglass =
     \<lparr>name = ''stormglass'', hoursPast = 168, hoursFuture = 0,
      stats = \<lparr>requestCount = 0, errorCount = 0, lastRequest = None\<rparr>,
      disabledTillDate = None\<rparr>"

text \<open>\<^verbatim>\<open>data.sg || data.dwd || data.noaa\<close>, with 0 falsy as in JavaScript.\<close>

fun truthyNum :: "rat option \<Rightarrow> bool" where
  "truthyNum None = False"
| "truthyNum (Some x) = (x \<noteq> 0)"

definition getDataProperty :: "SGSources option \<Rightarrow> rat option" where
  "getDataProperty d =
     (case d of
        None \<Rightarrow> None
      | Some v \<Rightarrow> if truthyNum (sg v) then sg v else if truthyNum (dwd v) then dwd v else noaa v)"

text \<open>\<^verbatim>\<open>x > 0\<close> for a value that may be null.\<close>

fun positive :: "rat option \<Rightarrow> bool" where
  "positive None = False"
| "positive (Some x) = (0 < x)"

text \<open>
  \<^verbatim>\<open>data.find((r) => r.time.includes(timeFilter))\<close>: the first element whose time
  contains the filter; an element without a time throws when the search reaches it.
\<close>

fun findHour :: "string \<Rightarrow> SGHour list \<Rightarrow> SGHour option outcome" where
  "findHour timeFilter [] = Return None"
| "findHour timeFilter (r # rs) =
     (case SGHour.time r of
        None \<Rightarrow> Throw (TypeError ''includes'')
      | Some t \<Rightarrow> if sublist timeFilter t then Return (Some r) else findHour timeFilter rs)"

definition toWeatherSummary ::
  "stormglassEnv \<Rightarrow> string \<Rightarrow> SGResponse option \<Rightarrow> number list \<Rightarrow> time \<Rightarrow> UserPreferences \<Rightarrow>
   WeatherSummary option outcome" where
  "toWeatherSummary G selfName res coordinates dDate prefs =
     (case res of
        None \<Rightarrow> Return None
      | Some d \<Rightarrow>
          (case (case res_hours d of Some hs \<Rightarrow> Some hs | None \<Rightarrow> res_data d) of
             None \<Rightarrow> Throw (TypeError ''find'')
           | Some hs \<Rightarrow>
               (case findHour (formatHour G dDate) hs of
                  Throw ex \<Rightarrow> Throw ex
                | Return None \<Rightarrow> Return None
                | Return (Some timeData) \<Rightarrow>
                    Return (Some (processWeatherSummary G
                      \<lparr>provider = selfName,
                       summary = None,
                       icon = None,
                       temperature = getDataProperty (airTemperature timeData),
                       feelsLike = getDataProperty (airTemperature timeData),
                       humidity = getDataProperty (SGHour.humidity timeData),
                       pressure = getDataProperty (SGHour.pressure timeData),
                       windSpeed = getDataProperty (SGHour.windSpeed timeData),
                       windDirection = getDataProperty (SGHour.windDirection timeData),
                       precipitation =
                         (if positive (getDataProperty (snowDepth timeData)) \<and>
                             positive (getDataProperty (SGHour.precipitation timeData))
                          then Some ''Snow'' else None),
                       cloudCover = getDataProperty (SGHour.cloudCover timeData),
                       visibility = getDataProperty (SGHour.visibility timeData),
                       timeOfDay = getSuntimes G coordinates dDate,
                       mmPrecipitation = getDataProperty (SGHour.precipitation timeData)\<rparr>
                      dDate prefs)))))"

text \<open>\<^verbatim>\<open>this.stats.errorCount++\<close> for the module at position \<open>i\<close>.\<close>

definition bumpErrorCount :: "nat \<Rightarrow> world \<Rightarrow> world" where
  "bumpErrorCount i w =
     updateProvider i (\<lambda>p. p\<lparr>stats := (stats p)\<lparr>errorCount := errorCount (stats p) + 1\<rparr>\<rparr>) w"

text \<open>The try block of \<^verbatim>\<open>getWeather\<close>, lines 47 to 72.\<close>

definition stormglass_try ::
  "stormglassEnv \<Rightarrow> nat \<Rightarrow> number list \<Rightarrow> time \<Rightarrow> UserPreferences option \<Rightarrow> world \<Rightarrow>
   WeatherSummary option outcome \<times> world" where
  "stormglass_try G self coordinates dDate prefs w =
     (let utcNow = clock w;
          diffHours = \<bar>diff_hours utcNow dDate\<bar>;
          isFuture = utcNow < dDate;
          maxHours = (if isFuture then hoursFuture (providers w ! self) else hoursPast (providers w ! self))
      in if diffHours > maxHours then (Throw (Error ''Date out of range''), w)
         else
           case apiRequest G
                  (coordinates,
                   if dayOfYear G dDate \<noteq> dayOfYear G (clock w)
                   then Some (dDate div 1000, (dDate + MILLISECONDS_A_HOUR) div 1000) else None) w of
             (Throw ex, w1) \<Rightarrow> (Throw ex, w1)
           | (Return res, w1) \<Rightarrow>
               (toWeatherSummary G (name (providers w1 ! self)) res coordinates dDate
                  (case prefs of None \<Rightarrow> \<lparr>weatherProvider = None, weatherUnit = None\<rparr> | Some p \<Rightarrow> p),
                w1))"

text \<open>\<^verbatim>\<open>getWeather\<close>: the catch block, lines 73 to 77, counts the error and throws it again.\<close>

definition stormglass_getWeather :: "stormglassEnv \<Rightarrow> adapter" where
  "stormglass_getWeather G self coordinates dDate prefs w =
     (case stormglass_try G self coordinates dDate prefs w of
        (Throw ex, w') \<Rightarrow> (Throw ex, bumpErrorCount self w')
      | (Return result, w') \<Rightarrow> (Return result, w'))"

section \<open>Scenarios\<close>

text \<open>
  Concrete inputs for the examples below. A scripted adapter answers by the position of
  the provider alone; like the Storm Glass module it counts an error before it throws it
  again and puts its own name into the summary it returns.
\<close>

definition scriptedAdapter :: "(nat \<Rightarrow> WeatherSummary option outcome) \<Rightarrow> adapter" where
  "scriptedAdapter script i coordinates dDate prefs w =
     (case script i of
        Throw ex \<Rightarrow> (Throw ex, bumpErrorCount i w)
      | Return None \<Rightarrow> (Return None, w)
      | Return (Some s) \<Rightarrow> (Return (Some (s\<lparr>provider := name (providers w ! i)\<rparr>)), w))"

definition now0 :: time where
  "now0 = 1700000000000"

definition exampleEnv :: "(nat \<Rightarrow> WeatherSummary option outcome) \<Rightarrow> env" where
  "exampleEnv script =
     \<lparr>defaultProviders = [''stormglass''], configured = (\<lambda>n. True), disabled = (\<lambda>n. False),
      secret = (\<lambda>n. Some ''key''), perDay = (\<lambda>n. 10), localUtcOffset = (\<lambda>t. 120),
      getWeather = scriptedAdapter script\<rparr>"

definition exampleWorld :: "WeatherProvider list \<Rightarrow> world" where
  "exampleWorld ps =
     \<lparr>clock = now0, providers = ps, maxHoursPast = 168, cache = (\<lambda>k. None), randoms = [], calls = []\<rparr>"

text \<open>
  A Storm Glass module that has used up its ten requests of the day, the last of them
  sixteen and a half hours (59400000 ms) before \<open>now0\<close>.
\<close>

definition exhaustedProvider :: WeatherProvider where
  "exhaustedProvider =
     stormglass\<lparr>stats := \<lparr>requestCount = 10, errorCount = 0, lastRequest = Some (now0 - 59400000)\<rparr>\<rparr>"

text \<open>
  The same module twenty hours (72000000 ms) after its last request.
\<close>

definition restedProvider :: WeatherProvider where
  "restedProvider =
     stormglass\<lparr>stats := \<lparr>requestCount = 10, errorCount = 0, lastRequest = Some (now0 - 72000000)\<rparr>\<rparr>"

text \<open>A coordinate pair as a caller gives it, and the pair rounded to four decimals.\<close>

definition londonRaw :: "number list" where
  "londonRaw = [Num (5150731 / 100000), Num (- 12766 / 100000)]"

definition london :: "number list" where
  "london = [Num (515073 / 10000), Num (- 1277 / 10000)]"

definition exampleSummary :: "string \<Rightarrow> WeatherSummary" where
  "exampleSummary n =
     \<lparr>provider = n, summary = Some ''Clear'', icon = Some ''Sun'', temperature = Some 18,
      feelsLike = Some 18, humidity = Some 40, pressure = Some 1013, windSpeed = Some 3,
      windDirection = Some 180, precipitation = None, cloudCover = Some 0, visibility = Some 10,
      timeOfDay = ''day'', mmPrecipitation = None\<rparr>"

definition plainUser :: UserData where
  "plainUser = \<lparr>isPro = False, preferences = None\<rparr>"

text \<open>A user whose stored preference is a provider outside the default pool.\<close>

definition tomorrowUser :: UserData where
  "tomorrowUser =
     \<lparr>isPro = False, preferences = Some \<lparr>weatherProvider = Some ''tomorrow'', weatherUnit = None\<rparr>\<rparr>"

text \<open>A state whose cache holds an answer of another provider for \<open>london\<close> at \<open>now0\<close>.\<close>

definition cachedWorld :: world where
  "cachedWorld =
     (exampleWorld [stormglass])
       \<lparr>cache := (\<lambda>k. if k = (london, now0) then Some (exampleSummary ''openmeteo'') else None)\<rparr>"

text \<open>A second provider, for a fallback; the same one with a date of disabling that has passed.\<close>

definition backupProvider :: WeatherProvider where
  "backupProvider =
     \<lparr>name = ''openmeteo'', hoursPast = 24, hoursFuture = 24,
      stats = \<lparr>requestCount = 0, errorCount = 0, lastRequest = None\<rparr>,
      disabledTillDate = None\<rparr>"

definition staleBackup :: WeatherProvider where
  "staleBackup = backupProvider\<lparr>disabledTillDate := Some (now0 - MILLISECONDS_A_DAY)\<rparr>"

text \<open>
  Scripts: every adapter fails with a transport error; the first fails with a transport
  error and the second with HTTP 402; the first fails and the second answers; every
  adapter answers.
\<close>

definition failing :: "nat \<Rightarrow> WeatherSummary option outcome" where
  "failing i = Throw (Error ''timeout'')"

definition quotaOnSecond :: "nat \<Rightarrow> WeatherSummary option outcome" where
  "quotaOnSecond i = (if i = 0 then Throw (Error ''timeout'') else Throw (HttpError 402))"

definition secondAnswers :: "nat \<Rightarrow> WeatherSummary option outcome" where
  "secondAnswers i = (if i = 0 then Throw (Error ''timeout'') else Return (Some (exampleSummary [])))"

definition answering :: "nat \<Rightarrow> WeatherSummary option outcome" where
  "answering i = Return (Some (exampleSummary []))"

text \<open>
  An activity that started two hours before \<open>now0\<close> in London and ended one hour later
  in Paris, at an offset of 60 minutes from UTC; the same with no end location; the same
  more than 168 hours ago.
\<close>

definition paris :: "number list" where
  "paris = [Num (488566 / 10000), Num (23522 / 10000)]"

definition rideActivity :: StravaActivity where
  "rideActivity =
     \<lparr>hasLocation = True, dateStart = now0 - 7200000, dateEnd = Some (now0 - 3600000),
      utcStartOffset = Some 60, totalTime = 3600, locationStart = Some london,
      locationEnd = Some paris, locationMid = None\<rparr>"


definition oldActivity :: StravaActivity where
  "oldActivity = rideActivity\<lparr>dateStart := now0 - 700000000, dateEnd := Some (now0 - 690000000)\<rparr>"

text \<open>
  The parameters of the Storm Glass module with an API that answers every request with
  HTTP 503, and with one that answers with no body.
\<close>

definition offlineApi :: stormglassEnv where
  "offlineApi =
     \<lparr>apiRequest = (\<lambda>req w. (Throw (HttpError 503), w)),
      dayOfYear = (\<lambda>t. nat ((t div MILLISECONDS_A_DAY) mod 365)),
      formatHour = (\<lambda>t. ''2023-11-14T22''),
      getSuntimes = (\<lambda>cs t. ''night''),
      processWeatherSummary = (\<lambda>s t p. s)\<rparr>"

definition emptyApi :: stormglassEnv where
  "emptyApi = offlineApi\<lparr>apiRequest := (\<lambda>req w. (Return None, w))\<rparr>"

section \<open>What the random draws leave alone\<close>

lemma nextRandom_frame: "nextRandom w = (r, w') \<Longrightarrow> providers w' = providers w \<and> calls w' = calls w \<and> cache w' = cache w \<and> clock w' = clock w \<and> maxHoursPast w' = maxHoursPast w"
  by (auto simp: nextRandom_def split: list.splits)

lemma baseRandom_frame: "baseRandom lo hi w = (r, w') \<Longrightarrow> providers w' = providers w \<and> calls w' = calls w \<and> cache w' = cache w \<and> clock w' = clock w \<and> maxHoursPast w' = maxHoursPast w"
  by (auto simp: baseRandom_def split: prod.splits dest: nextRandom_frame)

lemma sample_frame: "sample xs w = (r, w') \<Longrightarrow> providers w' = providers w \<and> calls w' = calls w \<and> cache w' = cache w \<and> clock w' = clock w \<and> maxHoursPast w' = maxHoursPast w"
  by (auto simp: sample_def split: if_splits prod.splits dest: baseRandom_frame)

lemma shuffleSelf_frame: "shuffleSelf i n xs w = (ys, w') \<Longrightarrow> providers w' = providers w \<and> calls w' = calls w \<and> cache w' = cache w \<and> clock w' = clock w \<and> maxHoursPast w' = maxHoursPast w"
proof (induction n arbitrary: i xs w)
  case 0
  then show ?case by simp
next
  case (Suc n)
  obtain r w1 where b: "baseRandom i (length xs - 1) w = (r, w1)" by (cases "baseRandom i (length xs - 1) w")
  with Suc.prems have "shuffleSelf (Suc i) n (xs[r := xs ! i, i := xs ! r]) w1 = (ys, w')" by simp
  from Suc.IH [OF this] baseRandom_frame [OF b] show ?case by simp
qed

lemma sampleSize_frame: "sampleSize xs n w = (ys, w') \<Longrightarrow> providers w' = providers w \<and> calls w' = calls w \<and> cache w' = cache w \<and> clock w' = clock w \<and> maxHoursPast w' = maxHoursPast w"
  by (auto simp: sampleSize_def split: prod.splits dest: shuffleSelf_frame)

lemma resolveProvider_frame: "resolveProvider E w a p = (prov, isDefault, w') \<Longrightarrow> providers w' = providers w \<and> calls w' = calls w \<and> cache w' = cache w \<and> clock w' = clock w \<and> maxHoursPast w' = maxHoursPast w"
  by (auto simp: resolveProvider_def split: if_splits prod.splits dest: sample_frame)

lemma selectCandidates_frame: "selectCandidates w av prov = (cs, w') \<Longrightarrow> providers w' = providers w \<and> calls w' = calls w \<and> cache w' = cache w \<and> clock w' = clock w \<and> maxHoursPast w' = maxHoursPast w"
  by (auto simp: selectCandidates_def Let_def split: if_splits prod.splits dest: sample_frame sampleSize_frame)

lemma toFixed4_londonRaw: "map toFixed4 londonRaw = london"
  by code_simp

lemma toFixed4_london: "map toFixed4 london = london"
  by code_simp

section \<open>Evaluating the scenarios\<close>

lemmas scenario_defs =
  exampleEnv_def exampleWorld_def stormglass_def backupProvider_def staleBackup_def
  failing_def quotaOnSecond_def secondAnswers_def answering_def plainUser_def now0_def
  scriptedAdapter_def exampleSummary_def rideActivity_def

lemmas lookup_defs =
  getLocationWeather_def invalidInput_def resolveProvider_def sample_def baseRandom_def
  nextRandom_def cacheUsable_def availableProviders_def isAvailable_def diff_hours_def
  absFloor_def selectCandidates_def sampleSize_def fetchFromCandidates_def invoke_def
  onFailure_def storeAndReturn_def bumpErrorCount_def updateProvider_def
  MILLISECONDS_A_HOUR_def MILLISECONDS_A_DAY_def endOf_day_def

lemma toFixed4_paris: "map toFixed4 paris = paris"
  by code_simp

section \<open>Facts about time\<close>

lemma diff_hours_gt16: "(16 < diff_hours a b) = (17 * MILLISECONDS_A_HOUR \<le> a - b)"
  unfolding diff_hours_def absFloor_def MILLISECONDS_A_HOUR_def by auto

lemma diff_hours_nonneg: "b \<le> a \<Longrightarrow> 0 \<le> diff_hours a b"
  unfolding diff_hours_def absFloor_def MILLISECONDS_A_HOUR_def by simp

lemma diff_hours_nonpos: "a < b \<Longrightarrow> diff_hours a b \<le> 0"
  unfolding diff_hours_def absFloor_def MILLISECONDS_A_HOUR_def by simp


lemma int_le_div_iff:
  fixes k n x :: int
  assumes "0 < n"
  shows "(k \<le> x div n) = (k * n \<le> x)"
proof
  assume "k \<le> x div n"
  with assms have "k * n \<le> (x div n) * n" by (simp add: mult_right_mono)
  also have "\<dots> \<le> x"
    using div_mult_mod_eq [of x n] pos_mod_sign [OF assms, of x] by linarith
  finally show "k * n \<le> x" .
next
  assume "k * n \<le> x"
  then have "(k * n) div n \<le> x div n" using assms by (rule zdiv_mono1)
  with assms show "k \<le> x div n" by simp
qed

lemma abs_diff_hours_gt:
  assumes "0 \<le> m"
  shows "(m < \<bar>diff_hours a b\<bar>) = ((m + 1) * MILLISECONDS_A_HOUR \<le> \<bar>a - b\<bar>)"
proof -
  have pos: "(m < x div 3600000) = ((m + 1) * 3600000 \<le> x)" for x :: int
  proof -
    have "(m < x div 3600000) = (m + 1 \<le> x div 3600000)" by linarith
    also have "\<dots> = ((m + 1) * 3600000 \<le> x)" by (rule int_le_div_iff) simp
    finally show ?thesis .
  qed
  show ?thesis
  proof (cases "a - b < 0")
    case True
    moreover from True have "0 \<le> (b - a) div 3600000" by simp
    ultimately show ?thesis
      using pos [of "b - a"] by (simp add: diff_hours_def absFloor_def MILLISECONDS_A_HOUR_def)
  next
    case False
    moreover from False have "0 \<le> (a - b) div 3600000" by simp
    ultimately show ?thesis
      using pos [of "a - b"] by (simp add: diff_hours_def absFloor_def MILLISECONDS_A_HOUR_def)
  qed
qed


section \<open>The eligibility filter (C2)\<close>

lemma isAvailable_iff:
  assumes "0 \<le> hoursPast p" and "0 \<le> hoursFuture p"
  shows "isAvailable E (diff_hours utcNow d) utcNow p \<longleftrightarrow>
     (if utcNow < d then - diff_hours utcNow d \<le> hoursFuture p
      else diff_hours utcNow d \<le> hoursPast p) \<and>
     (case disabledTillDate p of None \<Rightarrow> True | Some t \<Rightarrow> t \<le> utcNow) \<and>
     (requestCount (stats p) < perDay E (name p) \<or>
      (case lastRequest (stats p) of
         None \<Rightarrow> False
       | Some t \<Rightarrow> 17 * MILLISECONDS_A_HOUR \<le> utcNow - t))"
proof (cases "utcNow < d")
  case True
  from diff_hours_nonpos [OF True] assms show ?thesis
    using True by (auto simp: isAvailable_def diff_hours_gt16 split: option.splits)
next
  case False
  then have "0 \<le> diff_hours utcNow d" by (simp add: diff_hours_nonneg)
  with assms False show ?thesis
    by (auto simp: isAvailable_def diff_hours_gt16 split: option.splits)
qed

text \<open>
  C2, as the claim states it, fails. The claim admits a provider over its daily limit as
  soon as more than 16 hours have passed since its last request. The filter compares
  \<^verbatim>\<open>utcNow.diff(lastRequest, "hours")\<close>, a whole number of hours cut towards zero, with
  16: sixteen and a half hours after its last request the provider \<open>exhaustedProvider\<close>
  covers the query (one hour back), is not disabled, has more than 16 hours behind it,
  and is not in the eligible set.
\<close>

theorem eligible_counterexample:
  "diff_hours now0 (now0 - MILLISECONDS_A_HOUR) \<le> hoursPast exhaustedProvider \<and>
   disabledTillDate exhaustedProvider = None \<and>
   lastRequest (stats exhaustedProvider) = Some (now0 - 59400000) \<and>
   16 * MILLISECONDS_A_HOUR < now0 - (now0 - 59400000) \<and>
   0 \<notin> set (availableProviders (exampleEnv (\<lambda>i. Return None)) (exampleWorld [exhaustedProvider])
      (diff_hours now0 (now0 - MILLISECONDS_A_HOUR)) now0)"
  by (simp add: exampleWorld_def exhaustedProvider_def stormglass_def exampleEnv_def
      MILLISECONDS_A_HOUR_def now0_def diff_hours_def absFloor_def availableProviders_def
      isAvailable_def)

text \<open>
  C2, amended. For a query at \<open>d\<close>, with \<open>h = diff_hours utcNow d\<close> the whole hours
  between now and \<open>d\<close> as the lookup computes them, a registered provider \<open>p\<close> whose
  coverage window is not negative is in the eligible set if and only if
  (1) for a future query \<open>hoursFuture p\<close> is at least the whole hours ahead, and for a
  query that is not in the future \<open>hoursPast p\<close> is at least the whole hours back;
  (2) \<open>disabledTillDate p\<close> is null or not after now; and
  (3) \<open>requestCount\<close> is below the daily limit, or there is a last request and at least
  17 hours have passed since it (its whole hours exceed 16).
\<close>

theorem eligible_iff:
  assumes "i < length (providers w)"
    and "0 \<le> hoursPast (providers w ! i)" and "0 \<le> hoursFuture (providers w ! i)"
  shows "i \<in> set (availableProviders E w (diff_hours utcNow d) utcNow) \<longleftrightarrow>
     (if utcNow < d then - diff_hours utcNow d \<le> hoursFuture (providers w ! i)
      else diff_hours utcNow d \<le> hoursPast (providers w ! i)) \<and>
     (case disabledTillDate (providers w ! i) of None \<Rightarrow> True | Some t \<Rightarrow> t \<le> utcNow) \<and>
     (requestCount (stats (providers w ! i)) < perDay E (name (providers w ! i)) \<or>
      (case lastRequest (stats (providers w ! i)) of
         None \<Rightarrow> False
       | Some t \<Rightarrow> 17 * MILLISECONDS_A_HOUR \<le> utcNow - t))"
  using assms(1) isAvailable_iff [OF assms(2,3)]
  by (simp add: availableProviders_def)

theorem eligible_iff_witness:
  "0 < length (providers (exampleWorld [stormglass])) \<and>
   0 \<le> hoursPast (providers (exampleWorld [stormglass]) ! 0) \<and>
   0 \<le> hoursFuture (providers (exampleWorld [stormglass]) ! 0) \<and>
   0 \<in> set (availableProviders (exampleEnv (\<lambda>i. Return None)) (exampleWorld [stormglass])
      (diff_hours now0 (now0 - MILLISECONDS_A_HOUR)) now0)"
  using eligible_iff [where i = 0 and w = "exampleWorld [stormglass]" and utcNow = now0
      and d = "now0 - MILLISECONDS_A_HOUR" and E = "exampleEnv (\<lambda>i. Return None)"]
  by (simp add: exampleWorld_def stormglass_def exampleEnv_def
      MILLISECONDS_A_HOUR_def now0_def diff_hours_def absFloor_def)

section \<open>The filter changes no provider (C10)\<close>

text \<open>
  C10. The filter of lines 194 to 199 reads the providers and writes nothing. For a
  lookup that gets as far as the filter (valid input, no usable cache entry): the list
  of providers, and with it every provider's \<open>requestCount\<close>, \<open>errorCount\<close>,
  \<open>lastRequest\<close> and \<open>disabledTillDate\<close>, is the same at the entry of the lookup, in
  the state \<open>w1\<close> in which the lookup ends when no provider is eligible, and in the
  state \<open>w2\<close> in which the first attempt starts otherwise. Every admitted provider is
  in \<open>w2\<close> what it was, and still passes the filter there; one admitted by the sixteen
  hours escape does so with the request count it had, at or above its limit: no counter
  is reset.
\<close>

theorem filter_frame:
  assumes "\<not> invalidInput (Some cs) (Some d)"
    and "resolveProvider E w providerArg (preferences user) = (prov, isDefault, w1)"
    and "\<not> cacheUsable (cache w1 (map toFixed4 cs, d)) isDefault prov"
    and "selectCandidates w1 (availableProviders E w1 (diff_hours (clock w) d) (clock w)) prov
           = (currentProviders, w2)"
  shows "providers w1 = providers w \<and> providers w2 = providers w \<and>
    getLocationWeather E w user (Some cs) (Some d) providerArg =
      (if availableProviders E w (diff_hours (clock w) d) (clock w) = [] then (Return None, w1)
       else fetchFromCandidates E (clock w) currentProviders (map toFixed4 cs) d (preferences user)
              (map toFixed4 cs, d) w2) \<and>
    (\<forall>i \<in> set (availableProviders E w (diff_hours (clock w) d) (clock w)).
        i < length (providers w) \<and> providers w2 ! i = providers w ! i \<and>
        isAvailable E (diff_hours (clock w) d) (clock w) (providers w2 ! i))"
proof -
  note f1 = resolveProvider_frame [OF assms(2)]
  note f2 = selectCandidates_frame [OF assms(4)]
  from f1 have av: "availableProviders E w1 (diff_hours (clock w) d) (clock w)
      = availableProviders E w (diff_hours (clock w) d) (clock w)"
    by (simp add: availableProviders_def)
  have g: "getLocationWeather E w user (Some cs) (Some d) providerArg =
      (if availableProviders E w (diff_hours (clock w) d) (clock w) = [] then (Return None, w1)
       else fetchFromCandidates E (clock w) currentProviders (map toFixed4 cs) d (preferences user)
              (map toFixed4 cs, d) w2)"
    using assms by (simp add: getLocationWeather_def Let_def av)
  from f1 f2 have p: "providers w1 = providers w" "providers w2 = providers w" by simp_all
  have m: "\<forall>i \<in> set (availableProviders E w (diff_hours (clock w) d) (clock w)).
        i < length (providers w) \<and> providers w2 ! i = providers w ! i \<and>
        isAvailable E (diff_hours (clock w) d) (clock w) (providers w2 ! i)"
    using p by (simp add: availableProviders_def)
  from p g m show ?thesis by (intro conjI)
qed

theorem filter_frame_witness:
  "0 \<in> set (availableProviders (exampleEnv failing) (exampleWorld [restedProvider])
            (diff_hours (clock (exampleWorld [restedProvider])) (now0 - MILLISECONDS_A_HOUR))
            (clock (exampleWorld [restedProvider]))) \<and>
   perDay (exampleEnv failing) ''stormglass'' \<le> requestCount (stats restedProvider) \<and>
   providers (snd (selectCandidates (exampleWorld [restedProvider])
      (availableProviders (exampleEnv failing) (exampleWorld [restedProvider])
            (diff_hours (clock (exampleWorld [restedProvider])) (now0 - MILLISECONDS_A_HOUR))
            (clock (exampleWorld [restedProvider])))
      (Some ''stormglass''))) ! 0 = restedProvider"
proof -
  let ?E = "exampleEnv failing" and ?W = "exampleWorld [restedProvider]"
  let ?av = "availableProviders ?E ?W (diff_hours (clock ?W) (now0 - MILLISECONDS_A_HOUR)) (clock ?W)"
  have v: "\<not> invalidInput (Some london) (Some (now0 - MILLISECONDS_A_HOUR))"
    by (simp add: invalidInput_def london_def)
  have a: "resolveProvider ?E ?W None (preferences plainUser) = (Some ''stormglass'', True, ?W)"
    by (simp add: resolveProvider_def exampleEnv_def sample_def baseRandom_def nextRandom_def
        exampleWorld_def plainUser_def)
  have m: "\<not> cacheUsable (cache ?W (map toFixed4 london, now0 - MILLISECONDS_A_HOUR)) True
             (Some ''stormglass'')"
    by (simp add: cacheUsable_def exampleWorld_def)
  obtain cs w2 where b: "selectCandidates ?W ?av (Some ''stormglass'') = (cs, w2)"
    by (rule prod.exhaust)
  have c: "?av = [0]"
    by (simp add: availableProviders_def isAvailable_def exampleWorld_def
        restedProvider_def stormglass_def exampleEnv_def diff_hours_def absFloor_def
        MILLISECONDS_A_HOUR_def now0_def)
  from filter_frame [OF v a m b] have "providers w2 = providers ?W"
    by simp
  with b c show ?thesis
    by (simp add: exampleWorld_def restedProvider_def exampleEnv_def)
qed

section \<open>Preference resolution and the cache (C5)\<close>

lemma resolveProvider_cases:
  assumes "resolveProvider E w providerArg prefs = (prov, isDefault, w1)"
  shows "(isDefault \<longleftrightarrow> \<not> truthy providerArg) \<and>
    (truthy providerArg \<longrightarrow> prov = providerArg \<and> w1 = w) \<and>
    (\<not> truthy providerArg \<longrightarrow>
       (\<forall>p. prefs = Some p \<longrightarrow> truthy (weatherProvider p) \<longrightarrow> prov = weatherProvider p) \<and>
       ((\<forall>p. prefs = Some p \<longrightarrow> \<not> truthy (weatherProvider p)) \<longrightarrow>
          prov = fst (sample (defaultProviders E) w) \<and>
          (defaultProviders E \<noteq> [] \<longrightarrow> (\<exists>n \<in> set (defaultProviders E). prov = Some n))))"
proof -
  have s: "defaultProviders E \<noteq> [] \<Longrightarrow> \<exists>n \<in> set (defaultProviders E). fst (sample (defaultProviders E) w) = Some n"
    by (auto simp: sample_def baseRandom_def split: prod.splits)
  from assms s show ?thesis
    by (auto simp: resolveProvider_def split: if_splits prod.splits option.splits)
qed

text \<open>
  C5, as the claim states it, fails: \<^verbatim>\<open>isDefaultProvider\<close> is not true exactly when
  the provider came from the default pool. With no provider given and the stored
  preference "tomorrow", which is not in the pool, the lookup resolves to "tomorrow" and
  sets the flag all the same.
\<close>

theorem resolve_counterexample:
  "fst (resolveProvider (exampleEnv (\<lambda>i. Return None)) (exampleWorld [stormglass]) None
          (preferences tomorrowUser)) = Some ''tomorrow'' \<and>
   ''tomorrow'' \<notin> set (defaultProviders (exampleEnv (\<lambda>i. Return None))) \<and>
   fst (snd (resolveProvider (exampleEnv (\<lambda>i. Return None)) (exampleWorld [stormglass]) None
          (preferences tomorrowUser))) = True"
  by (simp add: resolveProvider_def exampleEnv_def sample_def baseRandom_def nextRandom_def
        exampleWorld_def tomorrowUser_def)

text \<open>
  C5, amended. The lookup resolves the provider as the explicit parameter, else the
  user's stored preference, else a member of the default pool drawn at random, and the
  flag is true exactly when no explicit parameter was given (whether the provider then
  came from the stored preference or from the pool). The cached entry for the rounded
  coordinates and the timestamp is returned, with nothing else done, if it exists and
  the flag is true or its provider equals the resolved one; otherwise the cache is
  bypassed: the lookup goes on with the eligible providers.
\<close>

theorem resolution_and_cache:
  assumes "\<not> invalidInput (Some cs) (Some d)"
    and "resolveProvider E w providerArg (preferences user) = (prov, isDefault, w1)"
  shows "(isDefault \<longleftrightarrow> \<not> truthy providerArg) \<and>
    (truthy providerArg \<longrightarrow> prov = providerArg \<and> w1 = w) \<and>
    (\<not> truthy providerArg \<longrightarrow>
       (\<forall>p. preferences user = Some p \<longrightarrow> truthy (weatherProvider p) \<longrightarrow> prov = weatherProvider p) \<and>
       ((\<forall>p. preferences user = Some p \<longrightarrow> \<not> truthy (weatherProvider p)) \<longrightarrow>
          prov = fst (sample (defaultProviders E) w) \<and>
          (defaultProviders E \<noteq> [] \<longrightarrow> (\<exists>n \<in> set (defaultProviders E). prov = Some n)))) \<and>
    (if \<exists>c. cache w1 (map toFixed4 cs, d) = Some c \<and> (isDefault \<or> Some (provider c) = prov)
     then getLocationWeather E w user (Some cs) (Some d) providerArg
            = (Return (cache w1 (map toFixed4 cs, d)), w1)
     else getLocationWeather E w user (Some cs) (Some d) providerArg
            = (if length (availableProviders E w1 (diff_hours (clock w) d) (clock w)) = 0
               then (Return None, w1)
               else case selectCandidates w1
                      (availableProviders E w1 (diff_hours (clock w) d) (clock w)) prov of
                 (currentProviders, w2) \<Rightarrow>
                   fetchFromCandidates E (clock w) currentProviders (map toFixed4 cs) d
                     (preferences user) (map toFixed4 cs, d) w2))"
proof -
  have u: "cacheUsable (cache w1 (map toFixed4 cs, d)) isDefault prov \<longleftrightarrow>
      (\<exists>c. cache w1 (map toFixed4 cs, d) = Some c \<and> (isDefault \<or> Some (provider c) = prov))"
    by (auto simp: cacheUsable_def split: option.splits)
  have g: "getLocationWeather E w user (Some cs) (Some d) providerArg =
      (if cacheUsable (cache w1 (map toFixed4 cs, d)) isDefault prov
       then (Return (cache w1 (map toFixed4 cs, d)), w1)
       else if length (availableProviders E w1 (diff_hours (clock w) d) (clock w)) = 0
            then (Return None, w1)
            else case selectCandidates w1
                   (availableProviders E w1 (diff_hours (clock w) d) (clock w)) prov of
              (currentProviders, w2) \<Rightarrow>
                fetchFromCandidates E (clock w) currentProviders (map toFixed4 cs) d
                  (preferences user) (map toFixed4 cs, d) w2)"
    using assms by (simp add: getLocationWeather_def Let_def)
  have b: "if \<exists>c. cache w1 (map toFixed4 cs, d) = Some c \<and> (isDefault \<or> Some (provider c) = prov)
     then getLocationWeather E w user (Some cs) (Some d) providerArg
            = (Return (cache w1 (map toFixed4 cs, d)), w1)
     else getLocationWeather E w user (Some cs) (Some d) providerArg
            = (if length (availableProviders E w1 (diff_hours (clock w) d) (clock w)) = 0
               then (Return None, w1)
               else case selectCandidates w1
                      (availableProviders E w1 (diff_hours (clock w) d) (clock w)) prov of
                 (currentProviders, w2) \<Rightarrow>
                   fetchFromCandidates E (clock w) currentProviders (map toFixed4 cs) d
                     (preferences user) (map toFixed4 cs, d) w2)"
  proof (cases "cacheUsable (cache w1 (map toFixed4 cs, d)) isDefault prov")
    case True
    with g u show ?thesis by (simp only: if_True)
  next
    case False
    with g u show ?thesis by (simp only: if_False)
  qed
  note a = resolveProvider_cases [OF assms(2)]
  show ?thesis
    by (rule conjI [OF conjunct1 [OF a] conjI [OF conjunct1 [OF conjunct2 [OF a]]
          conjI [OF conjunct2 [OF conjunct2 [OF a]] b]]])
qed

theorem resolution_and_cache_witness:
  "getLocationWeather (exampleEnv (\<lambda>i. Return None)) cachedWorld tomorrowUser (Some london) (Some now0) None
     = (Return (Some (exampleSummary ''openmeteo'')), cachedWorld)"
proof -
  have a: "\<not> invalidInput (Some london) (Some now0)"
    by (simp add: invalidInput_def london_def)
  have b: "resolveProvider (exampleEnv (\<lambda>i. Return None)) cachedWorld None (preferences tomorrowUser)
      = (Some ''tomorrow'', True, cachedWorld)"
    by (simp add: resolveProvider_def exampleEnv_def sample_def baseRandom_def nextRandom_def
        exampleWorld_def tomorrowUser_def cachedWorld_def)
  from resolution_and_cache [OF a b] show ?thesis
    by (simp add: toFixed4_london cachedWorld_def)
qed

section \<open>The fallback policy (C3)\<close>

subsection \<open>The candidates\<close>

lemma filter_eq_single:
  "distinct xs \<Longrightarrow> p \<in> set xs \<Longrightarrow> filter (\<lambda>i. i = p) xs = [p]"
  by (induction xs) (auto simp: filter_empty_conv)

lemma sample_member:
  assumes "xs \<noteq> []"
  shows "\<exists>x w'. sample xs w = (Some x, w') \<and> x \<in> set xs"
proof -
  obtain r w' where b: "baseRandom 0 (length xs - 1) w = (r, w')" by (rule prod.exhaust)
  then have "r < length xs"
    using assms by (auto simp: baseRandom_def split: prod.splits)
  with assms b show ?thesis by (simp add: sample_def)
qed

lemma availableProviders_distinct: "distinct (availableProviders E w h t)"
  by (simp add: availableProviders_def)

lemma selectCandidates_preferred:
  assumes names: "distinct (map name (providers w))"
    and av: "distinct av" "\<forall>i \<in> set av. i < length (providers w)"
    and p: "p \<in> set av" "name (providers w ! p) = pname"
    and q: "q \<in> set av" "q \<noteq> p"
  shows "\<exists>other w2. selectCandidates w av (Some pname) = ([Some p, Some other], w2) \<and>
           other \<in> set av \<and> other \<noteq> p"
proof -
  have same: "name (providers w ! i) = pname \<longleftrightarrow> i = p" if "i \<in> set av" for i
  proof -
    from that av p have "i < length (map name (providers w))" "p < length (map name (providers w))"
      by simp_all
    with names have "(map name (providers w) ! i = map name (providers w) ! p) = (i = p)"
      by (simp only: nth_eq_iff_index_eq)
    with that av p show ?thesis by simp
  qed
  have removed: "filter (\<lambda>i. Some (name (providers w ! i)) = Some pname) av = [p]"
  proof -
    have "filter (\<lambda>i. Some (name (providers w ! i)) = Some pname) av = filter (\<lambda>i. i = p) av"
      by (rule filter_cong) (simp_all add: same)
    with av(1) p(1) show ?thesis by (simp add: filter_eq_single)
  qed
  have remaining: "filter (\<lambda>i. Some (name (providers w ! i)) \<noteq> Some pname) av = filter (\<lambda>i. i \<noteq> p) av"
    by (rule filter_cong) (simp_all add: same)
  from q have "filter (\<lambda>i. i \<noteq> p) av \<noteq> []"
    by (auto simp: filter_empty_conv)
  from sample_member [OF this] obtain other w2 where
    o: "sample (filter (\<lambda>i. i \<noteq> p) av) w = (Some other, w2)" "other \<in> set (filter (\<lambda>i. i \<noteq> p) av)"
    by blast
  from o removed remaining have "selectCandidates w av (Some pname) = ([Some p, Some other], w2)"
    by (simp add: selectCandidates_def)
  with o(2) show ?thesis by auto
qed

subsection \<open>The attempts\<close>

lemma invoke_calls:
  "invoke E i c d prefs w = (r, w') \<Longrightarrow> calls w' = calls w @ [(i, c, d)]"
  by (auto simp: invoke_def split: prod.splits)

lemma invoke_contract:
  assumes "adapterContract E" and "i < length (providers w)" and "invoke E i c d prefs w = (r, w')"
  shows "length (providers w') = length (providers w) \<and>
         (\<forall>j. j \<noteq> i \<longrightarrow> providers w' ! j = providers w ! j) \<and>
         name (providers w' ! i) = name (providers w ! i) \<and>
         (\<forall>ex. r = Throw ex \<longrightarrow>
            errorCount (stats (providers w' ! i)) = errorCount (stats (providers w ! i)) + 1) \<and>
         (\<forall>s. r = Return (Some s) \<longrightarrow> provider s = name (providers w ! i))"
proof -
  obtain r0 w0 where g: "getWeather E i c d prefs w = (r0, w0)" by (rule prod.exhaust)
  with assms(3) have e: "r = r0" "providers w' = providers w0"
    by (auto simp: invoke_def)
  from assms(1) [unfolded adapterContract_def, rule_format, OF assms(2), of c d prefs] g have
    "length (providers w0) = length (providers w) \<and>
     (\<forall>j. j \<noteq> i \<longrightarrow> providers w0 ! j = providers w ! j) \<and>
     name (providers w0 ! i) = name (providers w ! i) \<and>
     (case r0 of
        Throw ex \<Rightarrow> errorCount (stats (providers w0 ! i)) = errorCount (stats (providers w ! i)) + 1
      | Return None \<Rightarrow> True
      | Return (Some s) \<Rightarrow> provider s = name (providers w ! i))"
    by simp
  with e show ?thesis by (cases r0) (auto split: option.splits)
qed

lemma storeAndReturn_some:
  "storeAndReturn k (Some s) w = (Return (Some s), w\<lparr>cache := (cache w)(k := Some s)\<rparr>)"
  by (simp add: storeAndReturn_def)

lemma storeAndReturn_frame:
  "calls (snd (storeAndReturn k r w)) = calls w \<and> providers (snd (storeAndReturn k r w)) = providers w"
  by (simp add: storeAndReturn_def split: option.splits)

lemma updateProvider_calls: "calls (updateProvider i f w) = calls w"
  by (simp add: updateProvider_def)

lemma onFailure_second:
  "onFailure E now [Some p, Some other] p c d prefs key ex w =
     (case invoke E other c d prefs
             (if response_status ex = Some 402
              then updateProvider p
                     (\<lambda>q. q\<lparr>disabledTillDate := Some (endOf_day now + MILLISECONDS_A_HOUR)\<rparr>) w
              else w) of
        (Throw retryEx, w2) \<Rightarrow> (Return None, w2)
      | (Return result, w2) \<Rightarrow> storeAndReturn key result w2)"
  by (simp add: onFailure_def)

lemma onFailure_calls:
  "calls (snd (onFailure E now [Some p, Some other] p c d prefs key ex w)) = calls w @ [(other, c, d)]"
proof -
  let ?w = "if response_status ex = Some 402
              then updateProvider p
                     (\<lambda>q. q\<lparr>disabledTillDate := Some (endOf_day now + MILLISECONDS_A_HOUR)\<rparr>) w
              else w"
  obtain r2 w2 where i: "invoke E other c d prefs ?w = (r2, w2)" by (rule prod.exhaust)
  from invoke_calls [OF i] have c: "calls w2 = calls w @ [(other, c, d)]"
    by (simp add: updateProvider_calls)
  show ?thesis
    unfolding onFailure_second i using c
    by (cases r2) (simp_all add: storeAndReturn_frame)
qed

lemma fetch_first_success:
  assumes "invoke E p c d prefs w = (Return (Some s), w3)"
  shows "fst (fetchFromCandidates E now [Some p, Some other] c d prefs key w) = Return (Some s) \<and>
         calls (snd (fetchFromCandidates E now [Some p, Some other] c d prefs key w)) = calls w @ [(p, c, d)]"
  using assms invoke_calls [OF assms]
  by (simp add: fetchFromCandidates_def storeAndReturn_some updateProvider_calls)

lemma fetch_first_failure:
  assumes "invoke E p c d prefs w = (r, w3)" and "\<forall>s. r \<noteq> Return (Some s)"
  shows "calls (snd (fetchFromCandidates E now [Some p, Some other] c d prefs key w))
           = calls w @ [(p, c, d), (other, c, d)]"
proof (cases r)
  case (Throw ex)
  with assms(1) invoke_calls [OF assms(1)] show ?thesis
    by (simp add: fetchFromCandidates_def onFailure_calls)
next
  case (Return y)
  with assms(2) have "y = None" by (cases y) simp_all
  with Return assms(1) invoke_calls [OF assms(1)] show ?thesis
    by (simp add: fetchFromCandidates_def onFailure_calls)
qed

lemma fetch_second_success:
  assumes first: "invoke E p c d prefs w = (Throw ex, w3)" "response_status ex = None"
    and second: "invoke E other c d prefs w3 = (Return (Some s), w4)"
  shows "fetchFromCandidates E now [Some p, Some other] c d prefs key w
           = (Return (Some s), w4\<lparr>cache := (cache w4)(key := Some s)\<rparr>)"
  using first second by (simp add: fetchFromCandidates_def onFailure_second storeAndReturn_some)

lemma fetch_fallback:
  assumes contract: "adapterContract E"
    and bounds: "p < length (providers w)" "other < length (providers w)" "other \<noteq> p"
    and first: "invoke E p c d prefs w = (Throw ex, w3)" "response_status ex = None"
    and second: "invoke E other c d prefs w3 = (Return (Some s), w4)"
  shows "provider s = name (providers w ! other) \<and>
         errorCount (stats (providers (snd (fetchFromCandidates E now [Some p, Some other] c d prefs key w)) ! p))
           = errorCount (stats (providers w ! p)) + 1"
proof -
  note c1 = invoke_contract [OF contract bounds(1) first(1)]
  from c1 bounds have len: "other < length (providers w3)" by simp
  note c2 = invoke_contract [OF contract len second]
  note r = fetch_second_success [OF first second]
  from c1 bounds(3) have n: "name (providers w3 ! other) = name (providers w ! other)" by simp
  from c2 bounds(3) have e: "providers w4 ! p = providers w3 ! p" by simp
  from c1 have "errorCount (stats (providers w3 ! p)) = errorCount (stats (providers w ! p)) + 1"
    by simp
  with e n c2 show ?thesis by (simp add: r)
qed

lemma scriptedAdapter_contract: "adapterContract (exampleEnv script)"
proof -
  have "length (providers w') = length (providers w) \<and>
        (\<forall>j. j \<noteq> i \<longrightarrow> providers w' ! j = providers w ! j) \<and>
        name (providers w' ! i) = name (providers w ! i) \<and>
        (case r of
           Throw ex \<Rightarrow> errorCount (stats (providers w' ! i)) = errorCount (stats (providers w ! i)) + 1
         | Return None \<Rightarrow> True
         | Return (Some s) \<Rightarrow> provider s = name (providers w ! i))"
    if "i < length (providers w)" and "scriptedAdapter script i c d prefs w = (r, w')"
    for i c d prefs w r w'
  proof (cases "script i")
    case (Throw ex)
    with that(2) have "r = Throw ex" "w' = bumpErrorCount i w"
      by (auto simp: scriptedAdapter_def)
    with that(1) show ?thesis
      by (simp add: bumpErrorCount_def updateProvider_def)
  next
    case (Return a)
    show ?thesis
    proof (cases a)
      case None
      with Return that(2) have "r = Return None" "w' = w"
        by (auto simp: scriptedAdapter_def)
      then show ?thesis by simp
    next
      case (Some s)
      with Return that(2) have "r = Return (Some (s\<lparr>provider := name (providers w ! i)\<rparr>))" "w' = w"
        by (auto simp: scriptedAdapter_def)
      then show ?thesis by simp
    qed
  qed
  then show ?thesis
    by (auto simp: adapterContract_def exampleEnv_def)
qed

subsection \<open>With another eligible provider\<close>

text \<open>
  Let the names of the providers be distinct, let the resolved preferred provider \<open>p\<close>
  be eligible and let another provider be eligible. Then the candidate list is \<open>p\<close>
  followed by one other eligible provider, drawn at random. If the attempt with \<open>p\<close>
  gives a summary, that summary is returned and \<open>p\<close> is the only adapter called. If it
  does not, the calls are the one of \<open>p\<close> and then the one of the other candidate, and
  no more: there is no third attempt. If \<open>p\<close> fails with a transport error (an error
  with no HTTP response) and the other candidate then gives a summary, that summary is
  returned. Nothing is assumed of the adapters here.
\<close>

lemma fallback_attempts:
  assumes valid: "\<not> invalidInput (Some cs) (Some d)"
    and res: "resolveProvider E w providerArg (preferences user) = (Some pname, isDefault, w1)"
    and miss: "\<not> cacheUsable (cache w1 (map toFixed4 cs, d)) isDefault (Some pname)"
    and names: "distinct (map name (providers w))"
    and preferred: "p \<in> set (availableProviders E w (diff_hours (clock w) d) (clock w))"
      "name (providers w ! p) = pname"
    and another: "q \<in> set (availableProviders E w (diff_hours (clock w) d) (clock w))" "q \<noteq> p"
  shows "\<exists>other w2.
      selectCandidates w1 (availableProviders E w (diff_hours (clock w) d) (clock w)) (Some pname)
        = ([Some p, Some other], w2) \<and>
      providers w2 = providers w \<and>
      other \<in> set (availableProviders E w (diff_hours (clock w) d) (clock w)) \<and> other \<noteq> p \<and>
      getLocationWeather E w user (Some cs) (Some d) providerArg
        = fetchFromCandidates E (clock w) [Some p, Some other] (map toFixed4 cs) d (preferences user)
            (map toFixed4 cs, d) w2 \<and>
      (\<forall>s w3. invoke E p (map toFixed4 cs) d (preferences user) w2 = (Return (Some s), w3) \<longrightarrow>
         fst (getLocationWeather E w user (Some cs) (Some d) providerArg) = Return (Some s) \<and>
         calls (snd (getLocationWeather E w user (Some cs) (Some d) providerArg))
           = calls w @ [(p, map toFixed4 cs, d)]) \<and>
      (\<forall>r w3. invoke E p (map toFixed4 cs) d (preferences user) w2 = (r, w3) \<longrightarrow>
         (\<forall>s. r \<noteq> Return (Some s)) \<longrightarrow>
         calls (snd (getLocationWeather E w user (Some cs) (Some d) providerArg))
           = calls w @ [(p, map toFixed4 cs, d), (other, map toFixed4 cs, d)]) \<and>
      (\<forall>ex w3 s w4. invoke E p (map toFixed4 cs) d (preferences user) w2 = (Throw ex, w3) \<longrightarrow>
         response_status ex = None \<longrightarrow>
         invoke E other (map toFixed4 cs) d (preferences user) w3 = (Return (Some s), w4) \<longrightarrow>
         fst (getLocationWeather E w user (Some cs) (Some d) providerArg) = Return (Some s))"
proof -
  let ?av = "availableProviders E w (diff_hours (clock w) d) (clock w)"
  note f1 = resolveProvider_frame [OF res]
  from f1 have av1: "availableProviders E w1 (diff_hours (clock w) d) (clock w) = ?av"
    by (simp add: availableProviders_def)
  have bound: "\<forall>i \<in> set ?av. i < length (providers w1)"
    using f1 by (simp add: availableProviders_def)
  from names f1 have names1: "distinct (map name (providers w1))" by simp
  from preferred(2) f1 have pn: "name (providers w1 ! p) = pname" by simp
  from selectCandidates_preferred [OF names1 availableProviders_distinct bound preferred(1) pn another]
  obtain other w2 where
    sel: "selectCandidates w1 ?av (Some pname) = ([Some p, Some other], w2)"
    and o: "other \<in> set ?av" "other \<noteq> p"
    by blast
  note f2 = selectCandidates_frame [OF sel]
  from f1 f2 have pw: "providers w2 = providers w" and cw: "calls w2 = calls w" by simp_all
  from preferred(1) have "?av \<noteq> []" by auto
  with valid res miss sel av1 have g: "getLocationWeather E w user (Some cs) (Some d) providerArg
      = fetchFromCandidates E (clock w) [Some p, Some other] (map toFixed4 cs) d (preferences user)
          (map toFixed4 cs, d) w2"
    by (simp add: getLocationWeather_def Let_def)
  have a: "\<forall>s w3. invoke E p (map toFixed4 cs) d (preferences user) w2 = (Return (Some s), w3) \<longrightarrow>
         fst (getLocationWeather E w user (Some cs) (Some d) providerArg) = Return (Some s) \<and>
         calls (snd (getLocationWeather E w user (Some cs) (Some d) providerArg))
           = calls w @ [(p, map toFixed4 cs, d)]"
    unfolding g using fetch_first_success [where E = E and p = p and w = w2] cw by simp
  have b: "\<forall>r w3. invoke E p (map toFixed4 cs) d (preferences user) w2 = (r, w3) \<longrightarrow>
         (\<forall>s. r \<noteq> Return (Some s)) \<longrightarrow>
         calls (snd (getLocationWeather E w user (Some cs) (Some d) providerArg))
           = calls w @ [(p, map toFixed4 cs, d), (other, map toFixed4 cs, d)]"
    unfolding g using fetch_first_failure [where E = E and p = p and w = w2] cw by simp
  have c: "\<forall>ex w3 s w4. invoke E p (map toFixed4 cs) d (preferences user) w2 = (Throw ex, w3) \<longrightarrow>
         response_status ex = None \<longrightarrow>
         invoke E other (map toFixed4 cs) d (preferences user) w3 = (Return (Some s), w4) \<longrightarrow>
         fst (getLocationWeather E w user (Some cs) (Some d) providerArg) = Return (Some s)"
    unfolding g using fetch_second_success [where E = E and p = p and w = w2] by simp
  from sel pw o g a b c show ?thesis by (intro exI [of _ other] exI [of _ w2] conjI)
qed

text \<open>
  The provider that the returned summary names and the error count of the first
  candidate are the adapters' business: the aggregator writes neither. For adapters that
  keep the contract, in the situation above, a summary that the second candidate gives
  after a transport error of \<open>p\<close> names the second candidate, and the error count of \<open>p\<close>
  has grown by exactly one: by the adapter of \<open>p\<close>, and neither the second adapter nor
  the store of the result changes it after that.
\<close>

lemma fallback_bookkeeping:
  assumes contract: "adapterContract E"
    and sel: "providers w2 = providers w" "p < length (providers w)" "other < length (providers w)"
      "other \<noteq> p"
    and g: "getLocationWeather E w user (Some cs) (Some d) providerArg
        = fetchFromCandidates E (clock w) [Some p, Some other] (map toFixed4 cs) d (preferences user)
            (map toFixed4 cs, d) w2"
    and first: "invoke E p (map toFixed4 cs) d (preferences user) w2 = (Throw ex, w3)"
      "response_status ex = None"
    and second: "invoke E other (map toFixed4 cs) d (preferences user) w3 = (Return (Some s), w4)"
  shows "provider s = name (providers w ! other) \<and>
         errorCount (stats (providers (snd (getLocationWeather E w user (Some cs) (Some d) providerArg)) ! p))
           = errorCount (stats (providers w ! p)) + 1"
proof -
  from sel have pb: "p < length (providers w2)" "other < length (providers w2)" by simp_all
  from fetch_fallback [OF contract pb sel(4) first second] sel(1) show ?thesis
    unfolding g by simp
qed

text \<open>
  Two eligible providers, Storm Glass preferred and failing with a transport error,
  the second answering: the summary of the second is returned and Storm Glass has
  counted one error.
\<close>

lemma fallback_example:
  "fst (getLocationWeather (exampleEnv secondAnswers) (exampleWorld [stormglass, backupProvider])
          plainUser (Some london) (Some now0) None) = Return (Some (exampleSummary ''openmeteo'')) \<and>
   calls (snd (getLocationWeather (exampleEnv secondAnswers)
      (exampleWorld [stormglass, backupProvider]) plainUser (Some london) (Some now0) None))
     = [(0, london, now0), (1, london, now0)] \<and>
   errorCount (stats (providers (snd (getLocationWeather (exampleEnv secondAnswers)
      (exampleWorld [stormglass, backupProvider]) plainUser (Some london) (Some now0) None)) ! 0)) = 1"
  by (simp add: lookup_defs scenario_defs toFixed4_london) (simp add: london_def)

subsection \<open>With the preferred provider alone\<close>

text \<open>
  C3 says that the candidate list, when the resolved preferred provider is eligible, is
  that provider and one other eligible provider, and that the second candidate is
  attempted after the first has failed. The code pushes \<^verbatim>\<open>_.sample(availableProviders)\<close>
  without looking at what is left: when the preferred provider is the only eligible
  one, the list left after \<^verbatim>\<open>_.remove\<close> is empty, the sample is undefined, and the
  candidate list is the preferred provider followed by undefined. With Storm Glass the
  only registered provider, preferred, and its adapter failing, the test for a second
  candidate (length above 1) passes, and the lookup raises on undefined after the one
  call of Storm Glass.
\<close>

theorem candidates_undefined:
  "availableProviders (exampleEnv failing) (exampleWorld [stormglass]) 0 now0 = [0] \<and>
   name (providers (exampleWorld [stormglass]) ! 0) = ''stormglass'' \<and>
   fst (selectCandidates (exampleWorld [stormglass])
          (availableProviders (exampleEnv failing) (exampleWorld [stormglass]) 0 now0)
          (Some ''stormglass'')) = [Some 0, None] \<and>
   fst (getLocationWeather (exampleEnv failing) (exampleWorld [stormglass]) plainUser
          (Some london) (Some now0) (Some ''stormglass'')) = Throw (TypeError ''name'') \<and>
   calls (snd (getLocationWeather (exampleEnv failing) (exampleWorld [stormglass]) plainUser
          (Some london) (Some now0) (Some ''stormglass''))) = [(0, london, now0)]"
  by (simp add: lookup_defs scenario_defs toFixed4_london) (simp add: london_def)

section \<open>The lookups never raise? (C1)\<close>

text \<open>
  \<^verbatim>\<open>getActivityWeather\<close> returns for every input: its catch block turns every
  exception into null.
\<close>

lemma getActivityWeather_returns:
  "\<exists>r w'. getActivityWeather E w user activity = (Return r, w')"
  by (cases "getActivityWeather_try E w user activity"; cases "fst (getActivityWeather_try E w user activity)")
    (auto simp: getActivityWeather_def)

text \<open>
  C1 says that \<^verbatim>\<open>getLocationWeather\<close> never raises and returns null when its only
  candidate fails. The code raises there. With Storm Glass the only registered provider
  and its adapter failing: when Storm Glass is also the resolved preference, the
  candidate list is the provider followed by undefined, and the catch block reads
  \<^verbatim>\<open>providerModule.name\<close> of undefined; when the preference is another provider, the
  candidate list has one entry, the catch block falls through to the log line after the
  try statement, and that reads \<^verbatim>\<open>result.provider\<close> of undefined.
\<close>

theorem getLocationWeather_raises:
  "fst (getLocationWeather (exampleEnv failing) (exampleWorld [stormglass]) plainUser
          (Some londonRaw) (Some now0) None) = Throw (TypeError ''name'') \<and>
   fst (getLocationWeather (exampleEnv failing) (exampleWorld [stormglass]) plainUser
          (Some londonRaw) (Some now0) (Some ''openmeteo'')) = Throw (TypeError ''provider'')"
  by (simp add: lookup_defs scenario_defs toFixed4_londonRaw) (simp add: londonRaw_def)

section \<open>The date of disabling on the fallback path (C4)\<close>

text \<open>
  C4 says that an adapter call that fails with HTTP 402 sets the provider's
  \<open>disabledTillDate\<close>, and that every successful call clears it, a success of the
  fallback candidate included. The code does both for the first candidate only. With the
  first candidate failing: a second candidate that fails with 402 is left enabled, and a
  second candidate that answers keeps the (past) date it was disabled until.
\<close>

theorem fallback_lifecycle:
  "fst (getLocationWeather (exampleEnv quotaOnSecond) (exampleWorld [stormglass, backupProvider])
          plainUser (Some london) (Some now0) None) = Return None \<and>
   disabledTillDate (providers (snd (getLocationWeather (exampleEnv quotaOnSecond)
          (exampleWorld [stormglass, backupProvider]) plainUser (Some london) (Some now0) None)) ! 1)
      = None \<and>
   fst (getLocationWeather (exampleEnv secondAnswers) (exampleWorld [stormglass, staleBackup])
          plainUser (Some london) (Some now0) None) = Return (Some (exampleSummary ''openmeteo'')) \<and>
   disabledTillDate (providers (snd (getLocationWeather (exampleEnv secondAnswers)
          (exampleWorld [stormglass, staleBackup]) plainUser (Some london) (Some now0) None)) ! 1)
      = Some (now0 - MILLISECONDS_A_DAY)"
  by (simp add: lookup_defs scenario_defs toFixed4_london) (simp add: london_def)

text \<open>
  What the code does for the first candidate: a summary clears its \<open>disabledTillDate\<close>,
  and a failure with HTTP 402 sets it to the end of the current day plus one hour (with
  a second candidate whose adapter keeps the contract).
\<close>

lemma first_candidate_cleared:
  assumes "invoke E p c d prefs w = (Return (Some s), w3)" and "p < length (providers w3)"
  shows "disabledTillDate
           (providers (snd (fetchFromCandidates E now (Some p # rest) c d prefs key w)) ! p) = None"
  using assms
  by (simp add: fetchFromCandidates_def storeAndReturn_some updateProvider_def)

lemma first_candidate_disabled:
  assumes contract: "adapterContract E"
    and bounds: "p < length (providers w)" "other < length (providers w)" "other \<noteq> p"
    and first: "invoke E p c d prefs w = (Throw ex, w3)" "response_status ex = Some 402"
  shows "disabledTillDate
           (providers (snd (fetchFromCandidates E now [Some p, Some other] c d prefs key w)) ! p)
         = Some (endOf_day now + MILLISECONDS_A_HOUR)"
proof -
  let ?w = "updateProvider p (\<lambda>q. q\<lparr>disabledTillDate := Some (endOf_day now + MILLISECONDS_A_HOUR)\<rparr>) w3"
  note c1 = invoke_contract [OF contract bounds(1) first(1)]
  from c1 bounds have len: "other < length (providers ?w)" "p < length (providers w3)"
    by (simp_all add: updateProvider_def)
  obtain r2 w4 where i2: "invoke E other c d prefs ?w = (r2, w4)" by (rule prod.exhaust)
  note c2 = invoke_contract [OF contract len(1) i2]
  from c2 bounds(3) len(2) have e: "disabledTillDate (providers w4 ! p) = Some (endOf_day now + MILLISECONDS_A_HOUR)"
    by (simp add: updateProvider_def)
  have "providers (snd (fetchFromCandidates E now [Some p, Some other] c d prefs key w)) = providers w4"
    using first i2
    by (cases r2) (simp_all add: fetchFromCandidates_def onFailure_second storeAndReturn_frame)
  with e show ?thesis by simp
qed

section \<open>The two lookups of an activity (C6)\<close>

text \<open>
  C6 says that the end coordinate is looked up at the activity's end time, and that a
  failure of the start lookup does not prevent the end lookup. The code computes
  \<^verbatim>\<open>dateEnd\<close> from \<^verbatim>\<open>activity.dateStart\<close>: for an activity that ended an hour after
  its start, the adapter is called for the end coordinate with the start time. And where
  the start lookup raises (the provider is the only one and fails, see C1), the end
  lookup, in the same try block, is not made.
\<close>

theorem end_lookup_at_start_date:
  "dateEnd rideActivity = Some (now0 - 3600000) \<and>
   calls (snd (getActivityWeather (exampleEnv answering) (exampleWorld [stormglass]) plainUser
      rideActivity)) = [(0, london, now0 - 7200000), (0, paris, now0 - 7200000)] \<and>
   calls (snd (getActivityWeather (exampleEnv failing) (exampleWorld [stormglass]) plainUser
      rideActivity)) = [(0, london, now0 - 7200000)]"
  by (simp add: getActivityWeather_def getActivityWeather_try_def fetchStartEnd_def fetchMid_def
      tooLongAgo_def utcOffset_def callLocationWeather_def lookup_defs scenario_defs
      toFixed4_london toFixed4_paris)
    (simp add: london_def paris_def)

section \<open>Activities out of coverage (C8)\<close>

text \<open>
  After \<^verbatim>\<open>init\<close>, started with no provider and \<open>maxHoursPast\<close> 0, \<open>maxHoursPast\<close> is
  the maximum of \<open>hoursPast\<close> over the registered providers (and 0), also when the
  loop ended early at a module with no settings.
\<close>

lemma register_maxHoursPast:
  assumes "maxHoursPast w = Max (insert 0 (hoursPast ` set (providers w)))"
  shows "maxHoursPast (register E p w) = Max (insert 0 (hoursPast ` set (providers (register E p w))))"
proof (cases "disabled E (name p) \<or> \<not> truthy (secret E (name p))")
  case True
  then have "register E p w = w" by (auto simp: register_def)
  with assms show ?thesis by simp
next
  case False
  define S where "S = hoursPast ` set (providers w)"
  have fin: "finite (insert 0 S)" "insert 0 S \<noteq> {}" by (simp_all add: S_def)
  from False have m: "maxHoursPast (register E p w) = max (hoursPast p) (maxHoursPast w)"
    by (simp add: register_def max_def)
  from False have "hoursPast ` set (providers (register E p w)) = insert (hoursPast p) S"
    by (simp add: register_def S_def)
  then have "Max (insert 0 (hoursPast ` set (providers (register E p w))))
      = Max (insert (hoursPast p) (insert 0 S))"
    by (simp only: insert_commute)
  also have "\<dots> = max (hoursPast p) (Max (insert 0 S))"
    using fin by (rule Max_insert)
  finally show ?thesis
    using m assms by (simp only: S_def)
qed

lemma init_maxHoursPast:
  assumes "maxHoursPast w = Max (insert 0 (hoursPast ` set (providers w)))"
  shows "maxHoursPast (init E all w) = Max (insert 0 (hoursPast ` set (providers (init E all w))))"
  using assms
  by (induction all arbitrary: w) (simp_all add: register_maxHoursPast)

text \<open>
  C8. For every activity whose end time is more than \<open>maxHoursPast\<close> hours before now,
  \<^verbatim>\<open>getActivityWeather\<close> returns null and leaves the state as it was: no adapter is
  invoked (the trace of calls is unchanged).
\<close>

theorem out_of_coverage:
  assumes "dateEnd activity = Some e"
    and "e < clock w - maxHoursPast w * MILLISECONDS_A_HOUR"
  shows "getActivityWeather E w user activity = (Return None, w) \<and>
         calls (snd (getActivityWeather E w user activity)) = calls w"
  using assms by (simp add: getActivityWeather_def getActivityWeather_try_def tooLongAgo_def)

theorem out_of_coverage_witness:
  "dateEnd oldActivity = Some (now0 - 690000000) \<and>
   now0 - 690000000 < clock (exampleWorld [stormglass]) - maxHoursPast (exampleWorld [stormglass]) * MILLISECONDS_A_HOUR \<and>
   getActivityWeather (exampleEnv answering) (exampleWorld [stormglass]) plainUser oldActivity
     = (Return None, exampleWorld [stormglass])"
proof -
  have a: "dateEnd oldActivity = Some (now0 - 690000000)"
    by (simp add: oldActivity_def)
  have b: "now0 - 690000000 < clock (exampleWorld [stormglass]) - maxHoursPast (exampleWorld [stormglass]) * MILLISECONDS_A_HOUR"
    by (simp add: exampleWorld_def MILLISECONDS_A_HOUR_def)
  from out_of_coverage [OF a b] a b show ?thesis by simp
qed

section \<open>Partial results of an activity (C7)\<close>

text \<open>
  An activity with no \<open>utcStartOffset\<close>: \<^verbatim>\<open>utcOffset(undefined)\<close> gives a number for each
  of the three dates, no lookup gets as far as a provider, and \<^verbatim>\<open>getActivityWeather\<close>
  returns null and leaves the state as it was.
\<close>

lemma callLocationWeather_number:
  "callLocationWeather E w user coordinates (Number n)
     = (if n = 0 then Return None else Throw (TypeError ''format''), w)"
  by (simp add: callLocationWeather_def)

lemma getActivityWeather_no_offset:
  assumes "utcStartOffset activity = None"
  shows "getActivityWeather E w user activity = (Return None, w)"
  using assms
  by (simp add: getActivityWeather_def getActivityWeather_try_def fetchStartEnd_def fetchMid_def
      utcOffset_def callLocationWeather_number)



section \<open>The range check of the Storm Glass adapter (C9)\<close>

lemma bumpErrorCount_errorCount:
  "self < length (providers w) \<Longrightarrow>
   errorCount (stats (providers (bumpErrorCount self w) ! self)) = errorCount (stats (providers w ! self)) + 1"
  by (simp add: bumpErrorCount_def updateProvider_def)

lemma stormglass_try_snd:
  "snd (stormglass_try G self cs d prefs w) =
     (if (if clock w < d then hoursFuture (providers w ! self) else hoursPast (providers w ! self))
           < \<bar>diff_hours (clock w) d\<bar>
      then w
      else snd (apiRequest G
                  (cs, if dayOfYear G d \<noteq> dayOfYear G (clock w)
                       then Some (d div 1000, (d + MILLISECONDS_A_HOUR) div 1000) else None) w))"
  by (simp add: stormglass_try_def Let_def split: prod.splits outcome.splits)

lemma stormglass_try_state:
  "snd (stormglass_try G self cs d prefs w) = w \<or>
   (\<exists>req. snd (stormglass_try G self cs d prefs w) = snd (apiRequest G req w))"
proof (cases "(if clock w < d then hoursFuture (providers w ! self) else hoursPast (providers w ! self))
           < \<bar>diff_hours (clock w) d\<bar>")
  case True
  then have "snd (stormglass_try G self cs d prefs w) = w"
    by (simp only: stormglass_try_snd if_True)
  then show ?thesis by (rule disjI1)
next
  case False
  then have "snd (stormglass_try G self cs d prefs w) = snd (apiRequest G
                  (cs, if dayOfYear G d \<noteq> dayOfYear G (clock w)
                       then Some (d div 1000, (d + MILLISECONDS_A_HOUR) div 1000) else None) w)"
    by (simp only: stormglass_try_snd if_False)
  then show ?thesis by (intro disjI2 exI)
qed

lemma stormglass_getWeather_throw:
  "fst (stormglass_getWeather G self cs d prefs w) = Throw ex \<Longrightarrow>
   snd (stormglass_getWeather G self cs d prefs w) = bumpErrorCount self (snd (stormglass_try G self cs d prefs w))"
  by (cases "stormglass_try G self cs d prefs w"; cases "fst (stormglass_try G self cs d prefs w)")
    (simp_all add: stormglass_getWeather_def)

text \<open>
  C9, as the claim states it, fails. The adapter compares whole hours: a date half an
  hour after now lies outside the window (\<open>hoursFuture\<close> is 0), and so does a date 168
  and a half hours before now, but for both the distance in whole hours is inside, the
  request is sent, and the error that comes back is the API's, not "out of range".
\<close>

theorem stormglass_range_counterexample:
  "clock (exampleWorld [stormglass]) + hoursFuture stormglass * MILLISECONDS_A_HOUR < now0 + 1800000 \<and>
   fst (stormglass_getWeather offlineApi 0 london (now0 + 1800000) None (exampleWorld [stormglass]))
     = Throw (HttpError 503) \<and>
   now0 - 168 * MILLISECONDS_A_HOUR - 1800000 < clock (exampleWorld [stormglass]) - hoursPast stormglass * MILLISECONDS_A_HOUR \<and>
   fst (stormglass_getWeather offlineApi 0 london (now0 - 168 * MILLISECONDS_A_HOUR - 1800000) None
          (exampleWorld [stormglass]))
     = Throw (HttpError 503)"
  by (simp add: stormglass_getWeather_def stormglass_try_def offlineApi_def exampleWorld_def
      stormglass_def diff_hours_def absFloor_def MILLISECONDS_A_HOUR_def now0_def)

text \<open>
  A response with no body is no failure of the adapter: it returns undefined and counts
  no error.
\<close>

lemma stormglass_no_body:
  "stormglass_getWeather emptyApi 0 london now0 None (exampleWorld [stormglass])
     = (Return None, exampleWorld [stormglass])"
  by (simp add: stormglass_getWeather_def stormglass_try_def offlineApi_def emptyApi_def exampleWorld_def
      stormglass_def diff_hours_def absFloor_def MILLISECONDS_A_HOUR_def now0_def toWeatherSummary_def)

text \<open>
  C9, amended. For every date whose distance from now in whole hours (cut towards zero)
  exceeds \<open>hoursFuture\<close>, for a date after now, or \<open>hoursPast\<close> otherwise (by
  \<open>abs_diff_hours_gt\<close>: every date a full hour or more outside the window),
  \<^verbatim>\<open>getWeather\<close> throws "Date out of range" and the state it leaves is the state it
  found with one more error counted for the provider: no request was made. And whenever \<^verbatim>\<open>getWeather\<close>
  throws, whatever the error, the provider's error count is one more than in the state
  that the request left (or the initial state, when no request was made).
\<close>

theorem stormglass_failures:
  "((if clock w < d then hoursFuture (providers w ! self) else hoursPast (providers w ! self))
       < \<bar>diff_hours (clock w) d\<bar> \<longrightarrow>
      stormglass_getWeather G self cs d prefs w = (Throw (Error ''Date out of range''), bumpErrorCount self w) \<and>
      (self < length (providers w) \<longrightarrow>
         errorCount (stats (providers (snd (stormglass_getWeather G self cs d prefs w)) ! self))
           = errorCount (stats (providers w ! self)) + 1)) \<and>
   (\<forall>ex. fst (stormglass_getWeather G self cs d prefs w) = Throw ex \<longrightarrow>
      (\<exists>w1. (w1 = w \<or> (\<exists>req. w1 = snd (apiRequest G req w))) \<and>
         snd (stormglass_getWeather G self cs d prefs w) = bumpErrorCount self w1 \<and>
         (self < length (providers w1) \<longrightarrow>
            errorCount (stats (providers (snd (stormglass_getWeather G self cs d prefs w)) ! self))
              = errorCount (stats (providers w1 ! self)) + 1)))"
proof (intro conjI impI allI)
  assume r: "(if clock w < d then hoursFuture (providers w ! self) else hoursPast (providers w ! self))
       < \<bar>diff_hours (clock w) d\<bar>"
  then show g: "stormglass_getWeather G self cs d prefs w = (Throw (Error ''Date out of range''), bumpErrorCount self w)"
    by (simp add: stormglass_getWeather_def stormglass_try_def Let_def)
  assume "self < length (providers w)"
  then show "errorCount (stats (providers (snd (stormglass_getWeather G self cs d prefs w)) ! self))
           = errorCount (stats (providers w ! self)) + 1"
    by (simp add: g bumpErrorCount_errorCount)
next
  fix ex
  assume t: "fst (stormglass_getWeather G self cs d prefs w) = Throw ex"
  define w1 where "w1 = snd (stormglass_try G self cs d prefs w)"
  have a: "w1 = w \<or> (\<exists>req. w1 = snd (apiRequest G req w))"
    unfolding w1_def by (rule stormglass_try_state)
  have s: "snd (stormglass_getWeather G self cs d prefs w) = bumpErrorCount self w1"
    unfolding w1_def by (rule stormglass_getWeather_throw [OF t])
  have c: "self < length (providers w1) \<longrightarrow>
            errorCount (stats (providers (snd (stormglass_getWeather G self cs d prefs w)) ! self))
              = errorCount (stats (providers w1 ! self)) + 1"
    by (simp add: s bumpErrorCount_errorCount)
  from a s c show "\<exists>w1. (w1 = w \<or> (\<exists>req. w1 = snd (apiRequest G req w))) \<and>
         snd (stormglass_getWeather G self cs d prefs w) = bumpErrorCount self w1 \<and>
         (self < length (providers w1) \<longrightarrow>
            errorCount (stats (providers (snd (stormglass_getWeather G self cs d prefs w)) ! self))
              = errorCount (stats (providers w1 ! self)) + 1)"
    by (intro exI [of _ w1] conjI)
qed

theorem stormglass_failures_witness:
  "stormglass_getWeather offlineApi 0 london (now0 + 2 * MILLISECONDS_A_HOUR) None (exampleWorld [stormglass])
     = (Throw (Error ''Date out of range''), bumpErrorCount 0 (exampleWorld [stormglass])) \<and>
   errorCount (stats (providers (snd (stormglass_getWeather offlineApi 0 london
       (now0 + 2 * MILLISECONDS_A_HOUR) None (exampleWorld [stormglass]))) ! 0)) = 1"
proof -
  have h: "(if clock (exampleWorld [stormglass]) < now0 + 2 * MILLISECONDS_A_HOUR
            then hoursFuture (providers (exampleWorld [stormglass]) ! 0)
            else hoursPast (providers (exampleWorld [stormglass]) ! 0))
       < \<bar>diff_hours (clock (exampleWorld [stormglass])) (now0 + 2 * MILLISECONDS_A_HOUR)\<bar>"
    by (simp add: exampleWorld_def stormglass_def diff_hours_def absFloor_def
        MILLISECONDS_A_HOUR_def now0_def)
  have l: "0 < length (providers (exampleWorld [stormglass]))"
    by (simp add: exampleWorld_def)
  from conjunct1 [OF stormglass_failures [where w = "exampleWorld [stormglass]" and self = 0
      and d = "now0 + 2 * MILLISECONDS_A_HOUR" and G = offlineApi and cs = london and prefs = None]] h l
  show ?thesis
    by (simp add: exampleWorld_def stormglass_def bumpErrorCount_def updateProvider_def)
qed

text \<open>
  The Storm Glass module keeps the contract of an adapter, provided that the request
  leaves the provider modules as they are and that \<^verbatim>\<open>processWeatherSummary\<close> keeps the
  provider's name in the summary.
\<close>

lemma toWeatherSummary_provider:
  assumes "toWeatherSummary G n res cs d p = Return (Some s)"
    and "\<And>x t q. provider (processWeatherSummary G x t q) = provider x"
  shows "provider s = n"
  using assms
  by (auto simp: toWeatherSummary_def split: option.splits outcome.splits)

lemma stormglass_contract:
  assumes api: "\<And>req w. providers (snd (apiRequest G req w)) = providers w"
    and proc: "\<And>x t q. provider (processWeatherSummary G x t q) = provider x"
  shows "adapterContract (E\<lparr>getWeather := stormglass_getWeather G\<rparr>)"
proof -
  have "length (providers w') = length (providers w) \<and>
        (\<forall>j. j \<noteq> i \<longrightarrow> providers w' ! j = providers w ! j) \<and>
        name (providers w' ! i) = name (providers w ! i) \<and>
        (case r of
           Throw ex \<Rightarrow> errorCount (stats (providers w' ! i)) = errorCount (stats (providers w ! i)) + 1
         | Return None \<Rightarrow> True
         | Return (Some s) \<Rightarrow> provider s = name (providers w ! i))"
    if i: "i < length (providers w)" and g: "stormglass_getWeather G i c d prefs w = (r, w')"
    for i c d prefs w r w'
  proof -
    obtain r0 w0 where t: "stormglass_try G i c d prefs w = (r0, w0)" by (rule prod.exhaust)
    have p0: "providers w0 = providers w"
      using stormglass_try_state [of G i c d prefs w] t api by auto
    show ?thesis
    proof (cases r0)
      case (Throw ex)
      with g t have "r = Throw ex" "w' = bumpErrorCount i w0"
        by (auto simp: stormglass_getWeather_def)
      with i p0 show ?thesis
        by (simp add: bumpErrorCount_def updateProvider_def)
    next
      case (Return y)
      with g t have e: "r = Return y" "w' = w0"
        by (auto simp: stormglass_getWeather_def)
      show ?thesis
      proof (cases y)
        case None
        with e p0 show ?thesis by simp
      next
        case (Some s)
        from t Return Some have "\<exists>res pr. toWeatherSummary G (name (providers w0 ! i)) res c d pr = Return (Some s)"
          by (auto simp: stormglass_try_def Let_def split: if_splits prod.splits outcome.splits)
        then have "provider s = name (providers w0 ! i)"
          using toWeatherSummary_provider proc by blast
        with e p0 Some show ?thesis by simp
      qed
    qed
  qed
  then show ?thesis
    by (auto simp: adapterContract_def)
qed

end
